theory Spec2Isabelle
  imports Main "HOL-Library.Word"
begin

unbundle bit_operations_syntax

section \<open>Data structures of create-diff-object.c\<close>

text \<open>
  The C program keeps two tables per object file (sections and symbols) and links their
  entries with raw pointers. In this embedding a pointer to a table entry is the position
  of the entry in its table (\<open>nat option\<close>, \<open>None\<close> for the null pointer); which table a
  pointer leads into is fixed by the field that holds it, as in the source: \<open>twin\<close> leads
  into the other input file, \<open>twino\<close> leads from an input table into the output table and
  back, every other link stays inside its own file.

  Every way in which the C program stops is a value of \<open>error\<close>: the macro \<open>ERROR\<close>
  (exit status 1), the macro \<open>DIFF_FATAL\<close> (exit status 2), and the undefined behaviours
  a claim may depend on (dereferencing a null pointer, reading or writing outside a table
  or a buffer, dividing by zero). \<open>FUEL\<close> is not an outcome of the program: it is the
  value of the recursive inclusion walk when the recursion depth given to the embedding
  is used up, and \<open>include_symbol_fuel\<close> proves that it does not occur.
\<close>

datatype status = NEW | CHANGED | SAME

datatype error =
    ERROR string
  | DIFF_FATAL string
  | NULL_DEREF
  | BAD_ACCESS
  | DIV_ZERO
  | FUEL

type_synonym 'a result = "error + 'a"

definition bind :: "'a result \<Rightarrow> ('a \<Rightarrow> 'b result) \<Rightarrow> 'b result" where
  "bind m f = (case m of Inl e \<Rightarrow> Inl e | Inr x \<Rightarrow> f x)"

text \<open>The records of \<open>gelf.h\<close> that the program reads and writes field by field.\<close>

record GElf_Shdr =
  sh_name :: "32 word"
  sh_type :: "32 word"
  sh_flags :: "64 word"
  sh_addr :: "64 word"
  sh_offset :: "64 word"
  sh_size :: "64 word"
  sh_link :: "32 word"
  sh_info :: "32 word"
  sh_addralign :: "64 word"
  sh_entsize :: "64 word"

record GElf_Sym =
  st_name :: "32 word"
  st_info :: "8 word"
  st_other :: "8 word"
  st_shndx :: "16 word"
  st_value :: "64 word"
  st_size :: "64 word"

record GElf_Rela =
  r_offset :: "64 word"
  r_info :: "64 word"
  r_addend :: "64 word"

record GElf_Ehdr =
  e_ident :: "8 word list"
  e_type :: "16 word"
  e_machine :: "16 word"
  e_version :: "32 word"
  e_entry :: "64 word"
  e_phoff :: "64 word"
  e_shoff :: "64 word"
  e_flags :: "32 word"
  e_ehsize :: "16 word"
  e_phentsize :: "16 word"
  e_phnum :: "16 word"
  e_shentsize :: "16 word"
  e_shnum :: "16 word"
  e_shstrndx :: "16 word"

text \<open>\<open>Elf_Data\<close>: the buffer (\<open>None\<close> is the null buffer of a no-bits or empty section)
  and its declared size.\<close>

record Elf_Data =
  d_buf :: "char list option"
  d_size :: nat

text \<open>A \<open>char *\<close> that was computed by pointer arithmetic into a section buffer: either
  the NUL-terminated string found there or an address outside the buffer.\<close>

datatype cstr = Str string | Wild

record rela =
  rela_twin :: "nat option"
  rela_rela :: GElf_Rela
  rela_sym :: "nat option"
  rela_type :: "8 word"
  rela_addend :: "32 word"
  rela_offset :: "32 word"
  rela_string :: "cstr option"
  rela_status :: status

text \<open>\<open>struct section\<close>. The C union overlays (\<open>base\<close>, \<open>relas\<close>) with (\<open>rela\<close>,
  \<open>secsym\<close>, \<open>sym\<close>); the record keeps both groups, and each function below reads the
  group the source reads.\<close>

record sect =
  sec_twin :: "nat option"
  sec_twino :: "nat option"
  sec_sh :: GElf_Shdr
  sec_data :: Elf_Data
  sec_name :: string
  sec_index :: nat
  sec_status :: status
  sec_include :: bool
  sec_base :: "nat option"
  sec_relas :: "rela list"
  sec_rela :: "nat option"
  sec_secsym :: "nat option"
  sec_sym :: "nat option"

record symbol =
  sym_twin :: "nat option"
  sym_twino :: "nat option"
  sym_sec :: "nat option"
  sym_sym :: GElf_Sym
  sym_name :: "string option"
  sym_index :: nat
  sym_bind :: "8 word"
  sym_type :: "8 word"
  sym_status :: status
  sym_include :: bool

text \<open>The \<open>Elf *\<close> handle, as far as the program queries it: the file header
  (\<open>gelf_getehdr\<close>) and the number of program headers (\<open>elf_getphdrnum\<close>); \<open>None\<close> is
  the failure of the query.\<close>

record Elf =
  elf_ehdr :: "GElf_Ehdr option"
  elf_phdrnum :: "nat option"

record kpatch_elf =
  elf :: "Elf option"
  sections :: "sect list"
  symbols :: "symbol list"

subsection \<open>Constants and macros of \<open>elf.h\<close>\<close>

text \<open>The header \<open>elf.h\<close> is not part of the repository; the values are those of the ELF
  specification.\<close>

definition SHT_RELA :: "32 word" where "SHT_RELA = 4"
definition SHT_NOBITS :: "32 word" where "SHT_NOBITS = 8"
definition SHF_STRINGS :: "64 word" where "SHF_STRINGS = 0x20"
definition SHN_UNDEF :: "16 word" where "SHN_UNDEF = 0"
definition SHN_LORESERVE :: "16 word" where "SHN_LORESERVE = 0xff00"
definition SHN_ABS :: "16 word" where "SHN_ABS = 0xfff1"
definition STT_NOTYPE :: "8 word" where "STT_NOTYPE = 0"
definition STT_OBJECT :: "8 word" where "STT_OBJECT = 1"
definition STT_FUNC :: "8 word" where "STT_FUNC = 2"
definition STT_SECTION :: "8 word" where "STT_SECTION = 3"
definition STT_FILE :: "8 word" where "STT_FILE = 4"
definition STB_LOCAL :: "8 word" where "STB_LOCAL = 0"
definition STB_GLOBAL :: "8 word" where "STB_GLOBAL = 1"
definition EV_CURRENT :: "32 word" where "EV_CURRENT = 1"
definition EI_DATA :: nat where "EI_DATA = 5"
definition EI_NIDENT :: nat where "EI_NIDENT = 16"

definition GELF_ST_BIND :: "8 word \<Rightarrow> 8 word" where
  "GELF_ST_BIND i = drop_bit 4 i"

definition GELF_ST_TYPE :: "8 word \<Rightarrow> 8 word" where
  "GELF_ST_TYPE i = i AND 0xf"

definition GELF_ST_INFO :: "8 word \<Rightarrow> 8 word \<Rightarrow> 8 word" where
  "GELF_ST_INFO b t = push_bit 4 b + (t AND 0xf)"

text \<open>
  The three macros that pack and unpack \<open>r_info\<close> are applied by the program to C
  variables of type \<open>int\<close> and \<open>unsigned int\<close>. They belong to the object-access library,
  so the functions that use them take them as a parameter, together with what else the
  program leaves to the library and the platform: the object representation of the two
  records it copies with \<open>memcpy\<close>, and \<open>gelf_getclass\<close>. \<open>elf64_r\<close> is the packing of
  the ELF-64 object class (symbol index in the upper, type in the lower 32 bits), with
  the integer conversions C applies to \<open>int\<close> arguments.
\<close>

record gelf_r =
  GELF_R_SYM :: "64 word \<Rightarrow> 64 word"
  GELF_R_TYPE :: "64 word \<Rightarrow> 64 word"
  GELF_R_INFO :: "32 word \<Rightarrow> 32 word \<Rightarrow> 64 word"
  bytes_of_sym :: "GElf_Sym \<Rightarrow> char list"
  bytes_of_rela :: "GElf_Rela \<Rightarrow> char list"
  gelf_getclass :: "Elf option \<Rightarrow> nat"

primrec le_bytes :: "nat \<Rightarrow> int \<Rightarrow> char list" where
  "le_bytes 0 v = []"
| "le_bytes (Suc n) v = char_of (v mod 256) # le_bytes n (v div 256)"

definition elf64_r :: gelf_r where
  "elf64_r = \<lparr> GELF_R_SYM = (\<lambda>i. drop_bit 32 i),
               GELF_R_TYPE = (\<lambda>i. i AND 0xffffffff),
               GELF_R_INFO = (\<lambda>s t. push_bit 32 (scast s) + scast t),
               bytes_of_sym = (\<lambda>s. le_bytes 4 (uint (st_name s)) @ le_bytes 1 (uint (st_info s)) @
                                   le_bytes 1 (uint (st_other s)) @ le_bytes 2 (uint (st_shndx s)) @
                                   le_bytes 8 (uint (st_value s)) @ le_bytes 8 (uint (st_size s))),
               bytes_of_rela = (\<lambda>r. le_bytes 8 (uint (r_offset r)) @ le_bytes 8 (uint (r_info r)) @
                                    le_bytes 8 (uint (r_addend r))),
               gelf_getclass = (\<lambda>e. case e of None \<Rightarrow> 0
                                     | Some h \<Rightarrow> (case elf_ehdr h of None \<Rightarrow> 0
                                                  | Some eh \<Rightarrow> unat (e_ident eh ! 4))) \<rparr>"

subsection \<open>Helper functions\<close>

definition is_rela_section :: "sect \<Rightarrow> bool" where
  "is_rela_section sec = (sh_type (sec_sh sec) = SHT_RELA)"

text \<open>Position of the first entry that satisfies \<open>P\<close>: the loop
  \<open>for_each_entry ... if (P) return entry; return NULL\<close>.\<close>

primrec find_entry :: "('a \<Rightarrow> bool) \<Rightarrow> 'a list \<Rightarrow> nat option" where
  "find_entry P [] = None"
| "find_entry P (x # xs) = (if P x then Some 0 else map_option Suc (find_entry P xs))"

definition find_section_by_index :: "sect list \<Rightarrow> nat \<Rightarrow> nat option" where
  "find_section_by_index table i = find_entry (\<lambda>sec. sec_index sec = i) table"

definition find_section_by_name :: "sect list \<Rightarrow> string \<Rightarrow> nat option" where
  "find_section_by_name table n = find_entry (\<lambda>sec. sec_name sec = n) table"

definition find_symbol_by_index :: "symbol list \<Rightarrow> nat \<Rightarrow> nat option" where
  "find_symbol_by_index table i = find_entry (\<lambda>sym. sym_index sym = i) table"

text \<open>Dereferencing a pointer into a table.\<close>

definition deref :: "'a list \<Rightarrow> nat option \<Rightarrow> 'a result" where
  "deref table p =
     (case p of
        None \<Rightarrow> Inl NULL_DEREF
      | Some i \<Rightarrow> if i < length table then Inr (table ! i) else Inl BAD_ACCESS)"

text \<open>The macro \<open>for_each_entry\<close>: the body runs for the positions \<open>0 ..< n\<close> in order and
  the first error ends the run.\<close>

primrec for_each :: "nat list \<Rightarrow> (nat \<Rightarrow> 's \<Rightarrow> 's result) \<Rightarrow> 's \<Rightarrow> 's result" where
  "for_each [] body s = Inr s"
| "for_each (i # is) body s = bind (body i s) (for_each is body)"

definition for_each_entry :: "nat \<Rightarrow> (nat \<Rightarrow> 's \<Rightarrow> 's result) \<Rightarrow> 's \<Rightarrow> 's result" where
  "for_each_entry n body s = for_each [0 ..< n] body s"

text \<open>Assignment through a pointer into a table: \<open>p->field = v\<close>.\<close>

definition upd_section :: "nat \<Rightarrow> (sect \<Rightarrow> sect) \<Rightarrow> kpatch_elf \<Rightarrow> kpatch_elf" where
  "upd_section i f kelf = kelf\<lparr>sections := (sections kelf)[i := f (sections kelf ! i)]\<rparr>"

definition upd_symbol :: "nat \<Rightarrow> (symbol \<Rightarrow> symbol) \<Rightarrow> kpatch_elf \<Rightarrow> kpatch_elf" where
  "upd_symbol i f kelf = kelf\<lparr>symbols := (symbols kelf)[i := f (symbols kelf ! i)]\<rparr>"

definition upd_rela :: "nat \<Rightarrow> nat \<Rightarrow> (rela \<Rightarrow> rela) \<Rightarrow> kpatch_elf \<Rightarrow> kpatch_elf" where
  "upd_rela i j f kelf =
     upd_section i (\<lambda>sec. sec\<lparr>sec_relas := (sec_relas sec)[j := f (sec_relas sec ! j)]\<rparr>) kelf"

definition store_section :: "nat option \<Rightarrow> (sect \<Rightarrow> sect) \<Rightarrow> kpatch_elf \<Rightarrow> kpatch_elf result" where
  "store_section p f kelf =
     (case p of
        None \<Rightarrow> Inl NULL_DEREF
      | Some i \<Rightarrow> if i < length (sections kelf) then Inr (upd_section i f kelf) else Inl BAD_ACCESS)"

definition store_symbol :: "nat option \<Rightarrow> (symbol \<Rightarrow> symbol) \<Rightarrow> kpatch_elf \<Rightarrow> kpatch_elf result" where
  "store_symbol p f kelf =
     (case p of
        None \<Rightarrow> Inl NULL_DEREF
      | Some i \<Rightarrow> if i < length (symbols kelf) then Inr (upd_symbol i f kelf) else Inl BAD_ACCESS)"

text \<open>\<open>!strcmp(a, b)\<close> on two \<open>char *\<close> that may be null.\<close>

definition streq :: "string option \<Rightarrow> string option \<Rightarrow> bool result" where
  "streq a b =
     (case a of
        None \<Rightarrow> Inl NULL_DEREF
      | Some x \<Rightarrow> (case b of None \<Rightarrow> Inl NULL_DEREF | Some y \<Rightarrow> Inr (x = y)))"

text \<open>\<open>memcmp(a, b, n) != 0\<close>.\<close>

definition memcmp_differs :: "char list option \<Rightarrow> char list option \<Rightarrow> nat \<Rightarrow> bool result" where
  "memcmp_differs a b n =
     (if n = 0 then Inr False
      else case a of
        None \<Rightarrow> Inl NULL_DEREF
      | Some x \<Rightarrow>
         (case b of
            None \<Rightarrow> Inl NULL_DEREF
          | Some y \<Rightarrow>
              if n \<le> length x \<and> n \<le> length y then Inr (take n x \<noteq> take n y)
              else Inl BAD_ACCESS))"

text \<open>Tables from \<open>alloc_table\<close> are zero-filled; \<open>NEW\<close> is the enumerator 0.\<close>

definition zero_sym :: GElf_Sym where
  "zero_sym = \<lparr> st_name = 0, st_info = 0, st_other = 0, st_shndx = 0, st_value = 0, st_size = 0 \<rparr>"

definition zero_symbol :: symbol where
  "zero_symbol = \<lparr> sym_twin = None, sym_twino = None, sym_sec = None, sym_sym = zero_sym,
      sym_name = None, sym_index = 0, sym_bind = 0, sym_type = 0, sym_status = NEW,
      sym_include = False \<rparr>"

definition zero_rela :: rela where
  "zero_rela = \<lparr> rela_twin = None,
      rela_rela = \<lparr> r_offset = 0, r_info = 0, r_addend = 0 \<rparr>,
      rela_sym = None, rela_type = 0, rela_addend = 0, rela_offset = 0,
      rela_string = None, rela_status = NEW \<rparr>"

definition zero_shdr :: GElf_Shdr where
  "zero_shdr = \<lparr> sh_name = 0, sh_type = 0, sh_flags = 0, sh_addr = 0, sh_offset = 0,
      sh_size = 0, sh_link = 0, sh_info = 0, sh_addralign = 0, sh_entsize = 0 \<rparr>"

definition zero_section :: sect where
  "zero_section = \<lparr> sec_twin = None, sec_twino = None, sec_sh = zero_shdr,
      sec_data = \<lparr> d_buf = None, d_size = 0 \<rparr>, sec_name = [], sec_index = 0,
      sec_status = NEW, sec_include = False, sec_base = None, sec_relas = [],
      sec_rela = None, sec_secsym = None, sec_sym = None \<rparr>"

section \<open>The object loader\<close>

text \<open>
  \<open>kpatch_create_section_table\<close> is a sequence of calls into the object-access library;
  its result, the section table with header, data, name and index of every section and
  every other field zero, is where the embedding starts. The library calls of the other two
  loader functions are parameters: \<open>getsym\<close> is \<open>gelf_getsym\<close>, \<open>getrela\<close> is
  \<open>gelf_getrela\<close>, \<open>strptr\<close> is \<open>elf_strptr\<close> on the file's handle; \<open>None\<close> is their
  failure. Entry counts are taken to fit the C type \<open>int\<close> they are stored in.
\<close>

type_synonym getsym_t = "Elf_Data \<Rightarrow> nat \<Rightarrow> GElf_Sym option"
type_synonym getrela_t = "Elf_Data \<Rightarrow> nat \<Rightarrow> GElf_Rela option"
type_synonym strptr_t = "32 word \<Rightarrow> 32 word \<Rightarrow> string option"

text \<open>\<open>buf + off\<close> read as a \<open>char *\<close>: null, a string inside the buffer, or an address
  that is not inside the buffer's text.\<close>

definition string_at :: "char list option \<Rightarrow> int \<Rightarrow> cstr option" where
  "string_at buf off =
     (case buf of
        None \<Rightarrow> if off = 0 then None else Some Wild
      | Some bs \<Rightarrow>
          if 0 \<le> off \<and> CHR 0x00 \<in> set (drop (nat off) bs)
          then Some (Str (takeWhile (\<lambda>c. c \<noteq> CHR 0x00) (drop (nat off) bs)))
          else Some Wild)"

text \<open>The body of the loop of \<open>kpatch_create_rela_table\<close> after \<open>gelf_getrela\<close> has
  filled \<open>rela->rela\<close>.\<close>

definition read_rela :: "gelf_r \<Rightarrow> kpatch_elf \<Rightarrow> GElf_Rela \<Rightarrow> rela result" where
  "read_rela g kelf gr =
     (let r = zero_rela\<lparr> rela_rela := gr,
                rela_type := ucast (GELF_R_TYPE g (r_info gr)),
                rela_addend := ucast (r_addend gr),
                rela_offset := ucast (r_offset gr) \<rparr>;
          symndx = (ucast (GELF_R_SYM g (r_info gr)) :: 32 word)
      in case find_symbol_by_index (symbols kelf) (unat symndx) of
           None \<Rightarrow> Inl (ERROR ''could not find rela entry symbol'')
         | Some s \<Rightarrow>
             (case sym_sec (symbols kelf ! s) of
                None \<Rightarrow> Inr (r\<lparr>rela_sym := Some s\<rparr>)
              | Some j \<Rightarrow>
                  bind (deref (sections kelf) (Some j)) (\<lambda>sec.
                    if sh_flags (sec_sh sec) AND SHF_STRINGS \<noteq> 0 then
                      (case string_at (d_buf (sec_data sec)) (sint (rela_addend r)) of
                         None \<Rightarrow> Inl (ERROR ''could not lookup rela string'')
                       | Some c \<Rightarrow> Inr (r\<lparr>rela_sym := Some s, rela_string := Some c\<rparr>))
                    else Inr (r\<lparr>rela_sym := Some s\<rparr>))))"

definition kpatch_create_rela_table ::
  "gelf_r \<Rightarrow> getrela_t \<Rightarrow> nat \<Rightarrow> kpatch_elf \<Rightarrow> kpatch_elf result" where
  "kpatch_create_rela_table g getrela si kelf =
     (let sec = sections kelf ! si in
      if length (sec_name sec) < 5 then Inl BAD_ACCESS
      else case find_section_by_name (sections kelf) (drop 5 (sec_name sec)) of
        None \<Rightarrow> Inl (ERROR ''can't find base section for rela section'')
      | Some b \<Rightarrow>
          (let k1 = upd_section si (\<lambda>s. s\<lparr>sec_base := Some b\<rparr>) kelf;
               k2 = upd_section b (\<lambda>s. s\<lparr>sec_rela := Some si\<rparr>) k1
           in if sh_entsize (sec_sh sec) = 0 then Inl DIV_ZERO
              else
                (let rela_nr = unat (sh_size (sec_sh sec) div sh_entsize (sec_sh sec));
                     k3 = upd_section si (\<lambda>s. s\<lparr>sec_relas := replicate rela_nr zero_rela\<rparr>) k2
                 in for_each_entry rela_nr
                      (\<lambda>i k. case getrela (sec_data sec) i of
                                None \<Rightarrow> Inl (ERROR ''gelf_getrela'')
                              | Some gr \<Rightarrow>
                                  bind (read_rela g k gr) (\<lambda>r. Inr (upd_rela si i (\<lambda>_. r) k)))
                      k3)))"

text \<open>The body of the loop of \<open>kpatch_create_symbol_table\<close> for the symbol at position
  \<open>i\<close>.\<close>

definition read_symbol ::
  "getsym_t \<Rightarrow> strptr_t \<Rightarrow> sect \<Rightarrow> nat \<Rightarrow> kpatch_elf \<Rightarrow> kpatch_elf result" where
  "read_symbol getsym strptr symtab i kelf =
     (if i = 0 then Inr kelf
      else case getsym (sec_data symtab) i of
        None \<Rightarrow> Inl (ERROR ''gelf_getsym'')
      | Some gs \<Rightarrow>
         (case strptr (sh_link (sec_sh symtab)) (st_name gs) of
            None \<Rightarrow> Inl (ERROR ''elf_strptr'')
          | Some nm \<Rightarrow>
             (let sym = (symbols kelf ! i)\<lparr> sym_index := i, sym_sym := gs, sym_name := Some nm,
                          sym_type := GELF_ST_TYPE (st_info gs),
                          sym_bind := GELF_ST_BIND (st_info gs) \<rparr>
              in if SHN_UNDEF < st_shndx gs \<and> st_shndx gs < SHN_LORESERVE then
                   (case find_section_by_index (sections kelf) (unat (st_shndx gs)) of
                      None \<Rightarrow> Inl (ERROR ''couldn't find section for symbol'')
                    | Some j \<Rightarrow>
                       (let sec = sections kelf ! j in
                        if (sym_type sym = STT_FUNC \<or> sym_type sym = STT_OBJECT) \<and>
                           sec_name sec \<noteq> ''__ksymtab_strings'' then
                          (if st_value gs \<noteq> 0 then
                             Inl (ERROR ''symbol at offset within section, expected 0'')
                           else Inr (upd_section j (\<lambda>s. s\<lparr>sec_sym := Some i\<rparr>)
                                      (upd_symbol i (\<lambda>_. sym\<lparr>sym_sec := Some j\<rparr>) kelf)))
                        else if sym_type sym = STT_SECTION then
                          Inr (upd_section j (\<lambda>s. s\<lparr>sec_secsym := Some i\<rparr>)
                                (upd_symbol i (\<lambda>_. sym\<lparr>sym_sec := Some j,
                                                        sym_name := Some (sec_name sec)\<rparr>) kelf))
                        else Inr (upd_symbol i (\<lambda>_. sym\<lparr>sym_sec := Some j\<rparr>) kelf)))
                 else Inr (upd_symbol i (\<lambda>_. sym) kelf))))"

definition kpatch_create_symbol_table ::
  "getsym_t \<Rightarrow> strptr_t \<Rightarrow> kpatch_elf \<Rightarrow> kpatch_elf result" where
  "kpatch_create_symbol_table getsym strptr kelf =
     (case find_section_by_name (sections kelf) ''.symtab'' of
        None \<Rightarrow> Inl (ERROR ''missing symbol table'')
      | Some t \<Rightarrow>
          (let symtab = sections kelf ! t in
           if sh_entsize (sec_sh symtab) = 0 then Inl DIV_ZERO
           else
             (let symbols_nr = unat (sh_size (sec_sh symtab) div sh_entsize (sec_sh symtab))
              in for_each_entry symbols_nr (read_symbol getsym strptr symtab)
                   (kelf\<lparr>symbols := replicate symbols_nr zero_symbol\<rparr>))))"

text \<open>\<open>kpatch_elf_open\<close> from the section table on: the symbol table, then the relocation
  table of every relocation section.\<close>

definition kpatch_elf_open ::
  "gelf_r \<Rightarrow> getsym_t \<Rightarrow> getrela_t \<Rightarrow> strptr_t \<Rightarrow> kpatch_elf \<Rightarrow> kpatch_elf result" where
  "kpatch_elf_open g getsym getrela strptr kelf =
     bind (kpatch_create_symbol_table getsym strptr kelf) (\<lambda>k1.
       for_each_entry (length (sections k1))
         (\<lambda>i k. if \<not> is_rela_section (sections k ! i) then Inr k
                 else kpatch_create_rela_table g getrela i k)
         k1)"

section \<open>The correlator\<close>

text \<open>The functions of this part work on both input files at once: the state is the pair
  of the base graph and the patched graph. A \<open>twin\<close> pointer of the first leads into the
  second and back.\<close>

text \<open>The inner loops end with \<open>break\<close> at the first match: \<open>find_entry\<close> where the test
  cannot fail, \<open>find_entry_res\<close> where it can.\<close>

primrec find_entry_res :: "('a \<Rightarrow> bool result) \<Rightarrow> 'a list \<Rightarrow> nat option result" where
  "find_entry_res P [] = Inr None"
| "find_entry_res P (x # xs) =
     bind (P x) (\<lambda>b. if b then Inr (Some 0)
                      else bind (find_entry_res P xs) (\<lambda>r. Inr (map_option Suc r)))"

definition kpatch_correlate_sections ::
  "kpatch_elf \<times> kpatch_elf \<Rightarrow> (kpatch_elf \<times> kpatch_elf) result" where
  "kpatch_correlate_sections =
     (\<lambda>(kelf1, kelf2). for_each_entry (length (sections kelf1))
        (\<lambda>i (k1, k2).
           case find_entry (\<lambda>sec2. sec_name (sections k1 ! i) = sec_name sec2) (sections k2) of
             None \<Rightarrow> Inr (k1, k2)
           | Some j \<Rightarrow>
               Inr (upd_section i (\<lambda>s. s\<lparr>sec_twin := Some j, sec_status := SAME\<rparr>) k1,
                    upd_section j (\<lambda>s. s\<lparr>sec_twin := Some i, sec_status := SAME\<rparr>) k2))
        (kelf1, kelf2))"

text \<open>Symbol 0 is skipped on both sides; \<open>j\<close> is a position in the table of the second
  file without its first entry.\<close>

definition kpatch_correlate_symbols ::
  "kpatch_elf \<times> kpatch_elf \<Rightarrow> (kpatch_elf \<times> kpatch_elf) result" where
  "kpatch_correlate_symbols =
     (\<lambda>(kelf1, kelf2). for_each_entry (length (symbols kelf1))
        (\<lambda>i (k1, k2).
           if i = 0 then Inr (k1, k2)
           else
             bind (find_entry_res (\<lambda>sym2. streq (sym_name (symbols k1 ! i)) (sym_name sym2))
                     (tl (symbols k2)))
               (\<lambda>r. case r of
                  None \<Rightarrow> Inr (k1, k2)
                | Some j \<Rightarrow>
                    Inr (upd_symbol i (\<lambda>s. s\<lparr>sym_twin := Some (Suc j), sym_status := SAME\<rparr>) k1,
                         upd_symbol (Suc j)
                           (\<lambda>s. s\<lparr>sym_twin := Some i, sym_status := SAME\<rparr>) k2)))
        (kelf1, kelf2))"

text \<open>\<open>rela_equal\<close> follows \<open>rela->sym\<close> into the symbol table of the file each relocation
  belongs to, so the two symbol tables are arguments.\<close>

definition rela_equal :: "symbol list \<Rightarrow> symbol list \<Rightarrow> rela \<Rightarrow> rela \<Rightarrow> bool result" where
  "rela_equal syms1 syms2 rela1 rela2 =
     (if rela_type rela1 \<noteq> rela_type rela2 \<or> rela_offset rela1 \<noteq> rela_offset rela2
      then Inr False
      else case rela_string rela1 of
        Some s1 \<Rightarrow>
          (case rela_string rela2 of
             None \<Rightarrow> Inr False
           | Some s2 \<Rightarrow>
               (case s1 of
                  Wild \<Rightarrow> Inl BAD_ACCESS
                | Str a \<Rightarrow> (case s2 of Wild \<Rightarrow> Inl BAD_ACCESS | Str b \<Rightarrow> Inr (a = b))))
      | None \<Rightarrow>
          bind (deref syms1 (rela_sym rela1)) (\<lambda>sym1.
          bind (deref syms2 (rela_sym rela2)) (\<lambda>sym2.
          bind (streq (sym_name sym1) (sym_name sym2)) (\<lambda>same_name.
            if \<not> same_name then Inr False
            else Inr (rela_addend rela1 = rela_addend rela2)))))"

text \<open>\<open>kpatch_correlate_relas\<close> for the relocation section at position \<open>si\<close> of the first
  file. The twin section is read only when the outer loop has an entry to compare.\<close>

definition kpatch_correlate_relas ::
  "nat \<Rightarrow> kpatch_elf \<times> kpatch_elf \<Rightarrow> (kpatch_elf \<times> kpatch_elf) result" where
  "kpatch_correlate_relas si =
     (\<lambda>(kelf1, kelf2). for_each_entry (length (sec_relas (sections kelf1 ! si)))
        (\<lambda>i (k1, k2).
           bind (deref (sections k2) (sec_twin (sections k1 ! si))) (\<lambda>twin.
           bind (find_entry_res
                   (rela_equal (symbols k1) (symbols k2) (sec_relas (sections k1 ! si) ! i))
                   (sec_relas twin))
             (\<lambda>r. case r of
                None \<Rightarrow> Inr (k1, k2)
              | Some j \<Rightarrow>
                  Inr (upd_rela si i (\<lambda>r. r\<lparr>rela_twin := Some j, rela_status := SAME\<rparr>) k1,
                       upd_rela (the (sec_twin (sections k1 ! si))) j
                         (\<lambda>r. r\<lparr>rela_twin := Some i, rela_status := SAME\<rparr>) k2))))
        (kelf1, kelf2))"

definition kpatch_correlate_elfs ::
  "kpatch_elf \<times> kpatch_elf \<Rightarrow> (kpatch_elf \<times> kpatch_elf) result" where
  "kpatch_correlate_elfs ks =
     bind (kpatch_correlate_sections ks) (\<lambda>ks1.
     bind (kpatch_correlate_symbols ks1) (\<lambda>ks2.
       for_each_entry (length (sections (fst ks2)))
         (\<lambda>i ks. if is_rela_section (sections (fst ks) ! i) then kpatch_correlate_relas i ks
                  else Inr ks)
         ks2))"

definition same_ehdr :: "GElf_Ehdr \<Rightarrow> GElf_Ehdr \<Rightarrow> bool" where
  "same_ehdr eh1 eh2 =
     (take EI_NIDENT (e_ident eh1) = take EI_NIDENT (e_ident eh2) \<and>
      e_type eh1 = e_type eh2 \<and> e_machine eh1 = e_machine eh2 \<and>
      e_version eh1 = e_version eh2 \<and> e_entry eh1 = e_entry eh2 \<and>
      e_phoff eh1 = e_phoff eh2 \<and> e_flags eh1 = e_flags eh2 \<and>
      e_ehsize eh1 = e_ehsize eh2 \<and> e_phentsize eh1 = e_phentsize eh2 \<and>
      e_shentsize eh1 = e_shentsize eh2)"

definition gelf_getehdr :: "Elf option \<Rightarrow> GElf_Ehdr option" where
  "gelf_getehdr e = (case e of None \<Rightarrow> None | Some h \<Rightarrow> elf_ehdr h)"

definition kpatch_compare_elf_headers :: "Elf option \<Rightarrow> Elf option \<Rightarrow> unit result" where
  "kpatch_compare_elf_headers elf1 elf2 =
     (case gelf_getehdr elf1 of
        None \<Rightarrow> Inl (ERROR ''gelf_getehdr'')
      | Some eh1 \<Rightarrow>
         (case gelf_getehdr elf2 of
            None \<Rightarrow> Inl (ERROR ''gelf_getehdr'')
          | Some eh2 \<Rightarrow>
              if \<not> same_ehdr eh1 eh2 then Inl (DIFF_FATAL ''ELF headers differ'')
              else Inr ()))"

definition kpatch_check_program_headers :: "Elf option \<Rightarrow> unit result" where
  "kpatch_check_program_headers e =
     (case (case e of None \<Rightarrow> None | Some h \<Rightarrow> elf_phdrnum h) of
        None \<Rightarrow> Inl (ERROR ''elf_getphdrnum'')
      | Some ph_nr \<Rightarrow>
          if ph_nr \<noteq> 0 then Inl (DIFF_FATAL ''ELF contains program header'') else Inr ())"

section \<open>The comparator\<close>

text \<open>The functions of this part take the table of the patched file and follow its \<open>twin\<close>
  pointers into the base file, which they do not change: \<open>base\<close> is the base graph.\<close>

definition kpatch_compare_correlated_nonrela_section ::
  "kpatch_elf \<Rightarrow> nat \<Rightarrow> kpatch_elf \<Rightarrow> kpatch_elf result" where
  "kpatch_compare_correlated_nonrela_section base i kelf =
     (let sec1 = sections kelf ! i in
      bind (deref (sections base) (sec_twin sec1)) (\<lambda>sec2.
        if sh_type (sec_sh sec1) \<noteq> sh_type (sec_sh sec2) \<or>
           sh_flags (sec_sh sec1) \<noteq> sh_flags (sec_sh sec2) \<or>
           sh_addr (sec_sh sec1) \<noteq> sh_addr (sec_sh sec2) \<or>
           sh_addralign (sec_sh sec1) \<noteq> sh_addralign (sec_sh sec2) \<or>
           sh_entsize (sec_sh sec1) \<noteq> sh_entsize (sec_sh sec2) \<or>
           sh_link (sec_sh sec1) \<noteq> sh_link (sec_sh sec1)
        then Inl (DIFF_FATAL ''section header details differ'')
        else if sh_size (sec_sh sec1) \<noteq> sh_size (sec_sh sec2) \<or>
                d_size (sec_data sec1) \<noteq> d_size (sec_data sec2)
        then Inr (upd_section i (\<lambda>s. s\<lparr>sec_status := CHANGED\<rparr>) kelf)
        else if sh_type (sec_sh sec1) = SHT_NOBITS
        then Inr (upd_section i (\<lambda>s. s\<lparr>sec_status := SAME\<rparr>) kelf)
        else bind (memcmp_differs (d_buf (sec_data sec1)) (d_buf (sec_data sec2))
                     (d_size (sec_data sec1)))
               (\<lambda>differs. Inr (upd_section i
                   (\<lambda>s. s\<lparr>sec_status := (if differs then CHANGED else SAME)\<rparr>) kelf))))"

text \<open>\<open>if (p) p->status = sec->status\<close> for the three links of a content section.\<close>

definition sync_symbol :: "nat option \<Rightarrow> status \<Rightarrow> kpatch_elf \<Rightarrow> kpatch_elf result" where
  "sync_symbol p st kelf =
     (if p = None then Inr kelf else store_symbol p (\<lambda>s. s\<lparr>sym_status := st\<rparr>) kelf)"

definition sync_section :: "nat option \<Rightarrow> status \<Rightarrow> kpatch_elf \<Rightarrow> kpatch_elf result" where
  "sync_section p st kelf =
     (if p = None then Inr kelf else store_section p (\<lambda>s. s\<lparr>sec_status := st\<rparr>) kelf)"

definition compare_nonrela_body :: "kpatch_elf \<Rightarrow> nat \<Rightarrow> kpatch_elf \<Rightarrow> kpatch_elf result" where
  "compare_nonrela_body base i kelf =
     (if is_rela_section (sections kelf ! i) then Inr kelf
      else
        bind (if sec_twin (sections kelf ! i) \<noteq> None
              then kpatch_compare_correlated_nonrela_section base i kelf
              else Inr (upd_section i (\<lambda>s. s\<lparr>sec_status := NEW\<rparr>) kelf)) (\<lambda>k1.
        bind (sync_symbol (sec_sym (sections k1 ! i)) (sec_status (sections k1 ! i)) k1) (\<lambda>k2.
        bind (sync_symbol (sec_secsym (sections k2 ! i)) (sec_status (sections k2 ! i)) k2) (\<lambda>k3.
          sync_section (sec_rela (sections k3 ! i)) (sec_status (sections k3 ! i)) k3))))"

definition kpatch_compare_correlated_nonrela_sections ::
  "kpatch_elf \<Rightarrow> kpatch_elf \<Rightarrow> kpatch_elf result" where
  "kpatch_compare_correlated_nonrela_sections base kelf =
     for_each_entry (length (sections kelf)) (compare_nonrela_body base) kelf"

definition kpatch_compare_correlated_symbol ::
  "kpatch_elf \<Rightarrow> nat \<Rightarrow> kpatch_elf \<Rightarrow> kpatch_elf result" where
  "kpatch_compare_correlated_symbol base i kelf =
     (let sym1 = symbols kelf ! i in
      bind (deref (symbols base) (sym_twin sym1)) (\<lambda>sym2.
      bind (if sym_sec sym1 \<noteq> None \<and> sym_sec sym2 \<noteq> None
            then bind (deref (sections kelf) (sym_sec sym1))
                   (\<lambda>sec1. Inr (sec_twin sec1 \<noteq> sym_sec sym2))
            else Inr False) (\<lambda>other_twin.
        if st_info (sym_sym sym1) \<noteq> st_info (sym_sym sym2) \<or>
           st_other (sym_sym sym1) \<noteq> st_other (sym_sym sym2) \<or>
           other_twin \<or>
           (sym_sec sym1 \<noteq> None \<and> sym_sec sym2 = None) \<or>
           (sym_sec sym2 \<noteq> None \<and> sym_sec sym1 = None)
        then Inl (DIFF_FATAL ''symbol info mismatch'')
        else if sym_type sym1 = STT_OBJECT \<and> st_size (sym_sym sym1) \<noteq> st_size (sym_sym sym2)
        then Inl (DIFF_FATAL ''object size mismatch'')
        else if st_shndx (sym_sym sym1) = SHN_UNDEF \<or> st_shndx (sym_sym sym1) = SHN_ABS
        then Inr (upd_symbol i (\<lambda>s. s\<lparr>sym_status := SAME\<rparr>) kelf)
        else Inr kelf)))"

definition kpatch_compare_correlated_symbols ::
  "kpatch_elf \<Rightarrow> kpatch_elf \<Rightarrow> kpatch_elf result" where
  "kpatch_compare_correlated_symbols base kelf =
     for_each_entry (length (symbols kelf))
       (\<lambda>i k. if i = 0 then Inr k
               else if sym_twin (symbols k ! i) \<noteq> None
               then kpatch_compare_correlated_symbol base i k
               else Inr (upd_symbol i (\<lambda>s. s\<lparr>sym_status := NEW\<rparr>) k))
       kelf"

text \<open>\<open>kpatch_set_rela_section_status\<close>: the loop returns at the first entry whose status
  is \<open>NEW\<close>.\<close>

definition kpatch_set_rela_section_status :: "nat \<Rightarrow> kpatch_elf \<Rightarrow> kpatch_elf result" where
  "kpatch_set_rela_section_status i kelf =
     (case find_entry (\<lambda>r. rela_status r = NEW) (sec_relas (sections kelf ! i)) of
        Some _ \<Rightarrow>
          (let k1 = upd_section i (\<lambda>s. s\<lparr>sec_status := CHANGED\<rparr>) kelf in
           bind (store_section (sec_base (sections k1 ! i)) (\<lambda>s. s\<lparr>sec_status := CHANGED\<rparr>) k1)
             (\<lambda>k2.
           bind (deref (sections k2) (sec_base (sections k2 ! i))) (\<lambda>b.
           bind (if sec_sym b \<noteq> None
                 then store_symbol (sec_sym b) (\<lambda>s. s\<lparr>sym_status := CHANGED\<rparr>) k2
                 else Inr k2) (\<lambda>k3.
           if sec_secsym b \<noteq> None
           then store_symbol (sec_secsym b) (\<lambda>s. s\<lparr>sym_status := CHANGED\<rparr>) k3
           else Inr k3))))
      | None \<Rightarrow> Inr (upd_section i (\<lambda>s. s\<lparr>sec_status := SAME\<rparr>) kelf))"

text \<open>The third pass of \<open>kpatch_compare_correlated_elements\<close>.\<close>

definition refine_rela_sections :: "kpatch_elf \<Rightarrow> kpatch_elf result" where
  "refine_rela_sections kelf =
     for_each_entry (length (sections kelf))
       (\<lambda>i k. if is_rela_section (sections k ! i) \<and> sec_status (sections k ! i) = SAME
               then kpatch_set_rela_section_status i k
               else Inr k)
       kelf"

definition kpatch_compare_correlated_elements ::
  "kpatch_elf \<Rightarrow> kpatch_elf \<Rightarrow> kpatch_elf result" where
  "kpatch_compare_correlated_elements base kelf =
     bind (kpatch_compare_correlated_nonrela_sections base kelf) (\<lambda>k1.
     bind (kpatch_compare_correlated_symbols base k1) refine_rela_sections)"

section \<open>Section-symbol substitution\<close>

definition replace_rela_sym :: "kpatch_elf \<Rightarrow> rela \<Rightarrow> rela result" where
  "replace_rela_sym kelf r =
     bind (deref (symbols kelf) (rela_sym r)) (\<lambda>sym.
       if sym_type sym \<noteq> STT_SECTION \<or> sym_sec sym = None then Inr r
       else bind (deref (sections kelf) (sym_sec sym)) (\<lambda>sec.
         if sec_sym sec = None then Inr r else Inr (r\<lparr>rela_sym := sec_sym sec\<rparr>)))"

definition kpatch_replace_sections_syms :: "kpatch_elf \<Rightarrow> kpatch_elf result" where
  "kpatch_replace_sections_syms kelf =
     for_each_entry (length (sections kelf))
       (\<lambda>i k. if \<not> is_rela_section (sections k ! i) then Inr k
               else for_each_entry (length (sec_relas (sections k ! i)))
                      (\<lambda>j k'. bind (replace_rela_sym k' (sec_relas (sections k' ! i) ! j))
                                 (\<lambda>r. Inr (upd_rela i j (\<lambda>_. r) k')))
                      k)
       kelf"

section \<open>The inclusion-closure walker\<close>

text \<open>
  \<open>kpatch_include_symbol\<close> is recursive through the loop over the relocations of the
  section it includes. The first argument bounds the depth of the recursion (the C
  parameter \<open>recurselevel\<close> counts it upwards and only indents the debug output);
  \<open>include_relas\<close> is the loop. The relocation table is not changed by the walk, so the
  loop runs over the table as it was when the loop started.
\<close>

fun kpatch_include_symbol :: "nat \<Rightarrow> nat \<Rightarrow> kpatch_elf \<Rightarrow> kpatch_elf result"
  and include_relas :: "nat \<Rightarrow> rela list \<Rightarrow> kpatch_elf \<Rightarrow> kpatch_elf result" where
  "kpatch_include_symbol 0 p kelf = Inl FUEL"
| "kpatch_include_symbol (Suc n) p kelf =
     (if \<not> p < length (symbols kelf) then Inl BAD_ACCESS
      else
        (let k1 = upd_symbol p (\<lambda>s. s\<lparr>sym_include := True\<rparr>) kelf;
             sym = symbols k1 ! p
         in case sym_sec sym of
              None \<Rightarrow> Inr k1
            | Some si \<Rightarrow>
                if sym_type sym \<noteq> STT_SECTION \<and> sym_status sym = SAME then Inr k1
                else if \<not> si < length (sections k1) then Inl BAD_ACCESS
                else
                  (let k2 = upd_section si (\<lambda>s. s\<lparr>sec_include := True\<rparr>) k1;
                       sec = sections k2 ! si
                   in if sec_secsym sec = Some p then Inr k2
                      else
                        (case (if sec_secsym sec = None then Inr k2
                               else store_symbol (sec_secsym sec)
                                      (\<lambda>s. s\<lparr>sym_include := True\<rparr>) k2) of
                           Inl e \<Rightarrow> Inl e
                         | Inr k3 \<Rightarrow>
                             (case sec_rela sec of
                                None \<Rightarrow> Inr k3
                              | Some ri \<Rightarrow>
                                  if \<not> ri < length (sections k3) then Inl BAD_ACCESS
                                  else
                                    (let k4 = upd_section ri (\<lambda>s. s\<lparr>sec_include := True\<rparr>) k3
                                     in include_relas n (sec_relas (sections k4 ! ri)) k4))))))"
| "include_relas n [] kelf = Inr kelf"
| "include_relas n (r # rs) kelf =
     (case rela_sym r of
        None \<Rightarrow> Inl NULL_DEREF
      | Some q \<Rightarrow>
          if \<not> q < length (symbols kelf) then Inl BAD_ACCESS
          else if sym_include (symbols kelf ! q) then include_relas n rs kelf
          else (case kpatch_include_symbol n q kelf of
                  Inl e \<Rightarrow> Inl e
                | Inr k' \<Rightarrow> include_relas n rs k'))"

text \<open>\<open>kpatch_include_changed_functions\<close>; the second component of the state is what the
  program has written to standard output at the default log level, message by message
  (\<open>log_normal\<close>). The walk from a changed function is given the depth
  \<open>length (symbols kelf)\<close>.\<close>

definition kpatch_include_changed_functions ::
  "kpatch_elf \<times> string list \<Rightarrow> (kpatch_elf \<times> string list) result" where
  "kpatch_include_changed_functions =
     (\<lambda>(kelf, out). for_each_entry (length (symbols kelf))
        (\<lambda>i (k, out).
           bind (if sym_status (symbols k ! i) = CHANGED \<and> sym_type (symbols k ! i) = STT_FUNC \<and>
                    \<not> sym_include (symbols k ! i)
                 then bind (kpatch_include_symbol (length (symbols k)) i k)
                        (\<lambda>k'. Inr (k', out @ [''changed function: '' @
                                  (case sym_name (symbols k ! i) of None \<Rightarrow> ''(null)'' | Some n \<Rightarrow> n)
                                  @ [CHR 0x0A]]))
                 else Inr (k, out))
             (\<lambda>(k1, out1).
                if sym_type (symbols k1 ! i) = STT_FILE
                then Inr (upd_symbol i (\<lambda>s. s\<lparr>sym_include := True\<rparr>) k1, out1)
                else Inr (k1, out1)))
        (kelf, out))"

text \<open>\<open>kpatch_find_changed_functions\<close> prints with \<open>printf\<close>; it returns the flag and the
  text it has printed.\<close>

definition kpatch_find_changed_functions :: "kpatch_elf \<Rightarrow> bool \<times> string list" where
  "kpatch_find_changed_functions kelf =
     (let changed = filter (\<lambda>sym. sym_type sym = STT_FUNC \<and> sym_status sym = CHANGED)
                      (symbols kelf)
      in (changed \<noteq> [],
          map (\<lambda>sym. ''function '' @ (case sym_name sym of None \<Rightarrow> ''(null)'' | Some n \<Rightarrow> n)
                      @ '' has changed'' @ [CHR 0x0A]) changed
          @ (if changed = [] then [''no changes found'' @ [CHR 0x0A]] else [])))"

section \<open>Output synthesis\<close>

text \<open>The state of this part is the pair of the patched graph and the output graph; a
  \<open>twino\<close> pointer of the first leads into the second and back.\<close>

definition is_file_sym :: "symbol \<Rightarrow> bool" where
  "is_file_sym s = (sym_type s = STT_FILE)"

definition is_local_func_sym :: "symbol \<Rightarrow> bool" where
  "is_local_func_sym s = (sym_bind s = STB_LOCAL \<and> sym_type s = STT_FUNC)"

definition is_local_sym :: "symbol \<Rightarrow> bool" where
  "is_local_sym s = (sym_bind s = STB_LOCAL)"

text \<open>The body of the loop of \<open>kpatch_copy_symbols\<close>; \<open>select = None\<close> is the null
  function pointer.\<close>

definition copy_symbol ::
  "(symbol \<Rightarrow> bool) option \<Rightarrow> nat \<Rightarrow> nat \<times> kpatch_elf \<times> kpatch_elf
     \<Rightarrow> (nat \<times> kpatch_elf \<times> kpatch_elf) result" where
  "copy_symbol select i =
     (\<lambda>(index, src, dst).
        let srcsym = symbols src ! i in
        if i = 0 \<or> \<not> sym_include srcsym then Inr (index, src, dst)
        else if (case select of None \<Rightarrow> False | Some f \<Rightarrow> \<not> f srcsym) then Inr (index, src, dst)
        else if \<not> index < length (symbols dst) then Inl BAD_ACCESS
        else
          (let dstsym = srcsym\<lparr>sym_index := index, sym_twino := Some i\<rparr>;
               src1 = upd_symbol i (\<lambda>s. s\<lparr>sym_twino := Some index\<rparr>) src
           in bind (if sym_sec srcsym = None then Inr dstsym
                    else bind (deref (sections src1) (sym_sec srcsym)) (\<lambda>sec.
                           if sec_twino sec = None then Inr dstsym
                           else bind (deref (sections dst) (sec_twino sec)) (\<lambda>secout.
                                  Inr (dstsym\<lparr>sym_sym := (sym_sym dstsym)
                                         \<lparr>st_shndx := of_nat (sec_index secout)\<rparr>\<rparr>))))
                (\<lambda>dstsym'.
                   Inr (Suc index,
                        upd_symbol i (\<lambda>s. s\<lparr>sym_include := False\<rparr>) src1,
                        upd_symbol index (\<lambda>_. dstsym') dst))))"

definition kpatch_copy_symbols ::
  "(symbol \<Rightarrow> bool) option \<Rightarrow> nat \<times> kpatch_elf \<times> kpatch_elf
     \<Rightarrow> (nat \<times> kpatch_elf \<times> kpatch_elf) result" where
  "kpatch_copy_symbols select =
     (\<lambda>(startndx, src, dst).
        for_each_entry (length (symbols src)) (copy_symbol select) (startndx, src, dst))"

text \<open>The four loops of \<open>kpatch_generate_output\<close> that precede the symbol copies.\<close>

definition include_standard_sections :: "kpatch_elf \<Rightarrow> kpatch_elf" where
  "include_standard_sections kelf =
     kelf\<lparr>sections :=
       map (\<lambda>sec. if sec_name sec = ''.shstrtab'' \<or> sec_name sec = ''.strtab'' \<or>
                      sec_name sec = ''.symtab''
                   then sec\<lparr>sec_include := True\<rparr> else sec)
         (sections kelf)\<rparr>"

definition count_symbols :: "symbol list \<Rightarrow> nat" where
  "count_symbols syms =
     length (filter (\<lambda>i. i = 0 \<or> sym_include (syms ! i)) [0 ..< length syms])"

definition copy_section ::
  "nat \<Rightarrow> nat \<times> kpatch_elf \<times> kpatch_elf \<Rightarrow> (nat \<times> kpatch_elf \<times> kpatch_elf) result" where
  "copy_section i =
     (\<lambda>(index, kelf, out).
        let sec = sections kelf ! i in
        if \<not> sec_include sec then Inr (index, kelf, out)
        else if \<not> index < length (sections out) then Inl BAD_ACCESS
        else Inr (Suc index,
                  upd_section i (\<lambda>s. s\<lparr>sec_twino := Some index\<rparr>) kelf,
                  upd_section index
                    (\<lambda>_. sec\<lparr>sec_index := Suc index, sec_twino := Some i\<rparr>) out))"

definition mutate_symbol :: "nat \<Rightarrow> kpatch_elf \<Rightarrow> kpatch_elf result" where
  "mutate_symbol i kelf =
     (let sym = symbols kelf ! i in
      if i = 0 then Inr kelf
      else if sym_type sym = STT_OBJECT \<or> sym_type sym = STT_FUNC then
        bind (deref (sections kelf) (sym_sec sym)) (\<lambda>sec.
          if \<not> sec_include sec then
            Inr (upd_symbol i
                  (\<lambda>s. s\<lparr> sym_type := STT_NOTYPE, sym_bind := STB_GLOBAL,
                          sym_sym := (sym_sym s)\<lparr> st_info := GELF_ST_INFO STB_GLOBAL STT_NOTYPE,
                                                 st_shndx := SHN_UNDEF, st_size := 0 \<rparr> \<rparr>)
                  kelf)
          else Inr kelf)
      else Inr kelf)"

definition mutate_symbols :: "kpatch_elf \<Rightarrow> kpatch_elf result" where
  "mutate_symbols kelf = for_each_entry (length (symbols kelf)) mutate_symbol kelf"

definition kpatch_generate_output :: "kpatch_elf \<Rightarrow> (kpatch_elf \<times> kpatch_elf) result" where
  "kpatch_generate_output kelf0 =
     (let kelf = include_standard_sections kelf0;
          sections_nr = length (filter sec_include (sections kelf));
          symbols_nr = count_symbols (symbols kelf);
          out = \<lparr> elf = None, sections = replicate sections_nr zero_section,
                  symbols = replicate symbols_nr zero_symbol \<rparr>
      in bind (for_each_entry (length (sections kelf)) copy_section (0, kelf, out))
           (\<lambda>(_, kelf1, out1).
         bind (mutate_symbols kelf1) (\<lambda>kelf2.
         bind (kpatch_copy_symbols (Some is_file_sym) (1, kelf2, out1)) (\<lambda>s1.
         bind (kpatch_copy_symbols (Some is_local_func_sym) s1) (\<lambda>s2.
         bind (kpatch_copy_symbols (Some is_local_sym) s2) (\<lambda>s3.
         bind (kpatch_copy_symbols None s3) (\<lambda>(_, kelf3, out3). Inr (kelf3, out3))))))))"

text \<open>
  \<open>kpatch_create_rela_section\<close> for the section at position \<open>si\<close> of the output graph.
  The relocations of an output section are those of the input section it was copied
  from; \<open>rela->sym\<close> still leads into the symbol table of the patched graph \<open>src\<close>.
  \<open>pack_entries\<close> is the buffer that the loop fills with \<open>memcpy\<close>: \<open>sz\<close> zero bytes,
  overwritten from the start by the first \<open>entsize\<close> bytes of each record.
\<close>

definition pack_entries :: "nat \<Rightarrow> nat \<Rightarrow> char list list \<Rightarrow> char list result" where
  "pack_entries sz entsize recs =
     (if \<exists>r \<in> set recs. length r < entsize then Inl BAD_ACCESS
      else if sz < length recs * entsize then Inl BAD_ACCESS
      else Inr (concat (map (take entsize) recs) @
                replicate (sz - length recs * entsize) (CHR 0x00)))"

definition retarget_rela :: "gelf_r \<Rightarrow> kpatch_elf \<Rightarrow> kpatch_elf \<Rightarrow> rela \<Rightarrow> rela result" where
  "retarget_rela g src out r =
     (if rela_sym r = None then Inl (ERROR ''expected rela symbol'')
      else bind (deref (symbols src) (rela_sym r)) (\<lambda>sym.
        if sym_twino sym = None then Inl (ERROR ''expected rela symbol'')
        else bind (deref (symbols out) (sym_twino sym)) (\<lambda>symout.
          (let symndx = (of_nat (sym_index symout) :: 32 word);
               type = (ucast (GELF_R_TYPE g (r_info (rela_rela r))) :: 32 word)
           in Inr (r\<lparr>rela_rela := (rela_rela r)\<lparr>r_info := GELF_R_INFO g symndx type\<rparr>\<rparr>)))))"

primrec retarget_relas ::
  "gelf_r \<Rightarrow> kpatch_elf \<Rightarrow> kpatch_elf \<Rightarrow> rela list \<Rightarrow> rela list result" where
  "retarget_relas g src out [] = Inr []"
| "retarget_relas g src out (r # rs) =
     bind (retarget_rela g src out r) (\<lambda>r'.
     bind (retarget_relas g src out rs) (\<lambda>rs'. Inr (r' # rs')))"

definition kpatch_create_rela_section ::
  "gelf_r \<Rightarrow> kpatch_elf \<Rightarrow> nat \<Rightarrow> nat \<Rightarrow> kpatch_elf \<Rightarrow> kpatch_elf result" where
  "kpatch_create_rela_section g src si link out =
     (let sec = sections out ! si in
      bind (retarget_relas g src out (sec_relas sec)) (\<lambda>relas'.
      bind (pack_entries (unat (sh_size (sec_sh sec))) (unat (sh_entsize (sec_sh sec)))
              (map (\<lambda>r. bytes_of_rela g (rela_rela r)) relas')) (\<lambda>buf.
      bind (deref (sections src) (sec_twino sec)) (\<lambda>insec.
      bind (deref (sections src) (sec_base insec)) (\<lambda>inbase.
      bind (deref (sections out) (sec_twino inbase)) (\<lambda>outbase.
        Inr (upd_section si
               (\<lambda>s. s\<lparr> sec_relas := relas',
                       sec_data := (sec_data s)\<lparr>d_buf := Some buf\<rparr>,
                       sec_sh := (sec_sh s)\<lparr> sh_link := of_nat link,
                                            sh_info := of_nat (sec_index outbase) \<rparr> \<rparr>)
               out)))))))"

definition kpatch_create_rela_sections ::
  "gelf_r \<Rightarrow> kpatch_elf \<Rightarrow> kpatch_elf \<Rightarrow> kpatch_elf result" where
  "kpatch_create_rela_sections g src out =
     bind (deref (sections out) (find_section_by_name (sections out) ''.symtab'')) (\<lambda>symtab.
       for_each_entry (length (sections out))
         (\<lambda>i k. if is_rela_section (sections k ! i)
                 then kpatch_create_rela_section g src i (sec_index symtab) k
                 else Inr k)
         out)"

text \<open>The string tables: a NUL, then every name with its NUL; \<open>name_offsets off names\<close>
  is the offset each name is written at.\<close>

primrec name_offsets :: "nat \<Rightarrow> string list \<Rightarrow> nat list" where
  "name_offsets off [] = []"
| "name_offsets off (n # ns) = off # name_offsets (off + length n + 1) ns"

definition string_table :: "string list \<Rightarrow> char list" where
  "string_table names = CHR 0x00 # concat (map (\<lambda>n. n @ [CHR 0x00]) names)"

definition kpatch_create_shstrtab :: "kpatch_elf \<Rightarrow> kpatch_elf result" where
  "kpatch_create_shstrtab kelf =
     (case find_section_by_name (sections kelf) ''.shstrtab'' of
        None \<Rightarrow> Inl (ERROR ''find_section_by_name'')
      | Some t \<Rightarrow>
          (let names = map sec_name (sections kelf);
               buf = string_table names;
               k1 = kelf\<lparr>sections :=
                      map (\<lambda>(sec, off). sec\<lparr>sec_sh := (sec_sh sec)\<lparr>sh_name := of_nat off\<rparr>\<rparr>)
                        (zip (sections kelf) (name_offsets 1 names))\<rparr>
           in Inr (upd_section t
                     (\<lambda>s. s\<lparr>sec_data := \<lparr>d_buf = Some buf, d_size = length buf\<rparr>\<rparr>) k1)))"

definition kpatch_create_strtab :: "kpatch_elf \<Rightarrow> kpatch_elf result" where
  "kpatch_create_strtab kelf =
     (case find_section_by_name (sections kelf) ''.strtab'' of
        None \<Rightarrow> Inl (ERROR ''find_section_by_name'')
      | Some t \<Rightarrow>
          (let named = filter (\<lambda>i. i \<noteq> 0 \<and> sym_type (symbols kelf ! i) \<noteq> STT_SECTION)
                         [0 ..< length (symbols kelf)]
           in if \<exists>i \<in> set named. sym_name (symbols kelf ! i) = None then Inl NULL_DEREF
              else
                (let names = map (\<lambda>i. the (sym_name (symbols kelf ! i))) named;
                     buf = string_table names;
                     offs = map_of (zip named (name_offsets 1 names));
                     k1 = kelf\<lparr>symbols :=
                            map (\<lambda>i. let s = symbols kelf ! i in
                                   if i = 0 then s
                                   else s\<lparr>sym_sym := (sym_sym s)
                                          \<lparr>st_name := (case offs i of None \<Rightarrow> 0
                                                        | Some off \<Rightarrow> of_nat off)\<rparr>\<rparr>)
                              [0 ..< length (symbols kelf)]\<rparr>
                 in Inr (upd_section t
                           (\<lambda>s. s\<lparr>sec_data := \<lparr>d_buf = Some buf, d_size = length buf\<rparr>\<rparr>) k1))))"

definition kpatch_create_symtab :: "gelf_r \<Rightarrow> kpatch_elf \<Rightarrow> kpatch_elf result" where
  "kpatch_create_symtab g kelf =
     (case find_section_by_name (sections kelf) ''.symtab'' of
        None \<Rightarrow> Inl (ERROR ''find_section_by_name'')
      | Some t \<Rightarrow>
          (let entsize = unat (sh_entsize (sec_sh (sections kelf ! t)));
               sz = length (symbols kelf) * entsize
           in bind (pack_entries sz entsize
                      (map (\<lambda>s. bytes_of_sym g (sym_sym s)) (symbols kelf))) (\<lambda>buf.
              bind (deref (sections kelf) (find_section_by_name (sections kelf) ''.strtab''))
                (\<lambda>strtab.
              bind (deref (sections kelf) (find_section_by_name (sections kelf) ''.shstrtab''))
                (\<lambda>shstrtab.
                Inr (upd_section t
                       (\<lambda>s. s\<lparr> sec_data := \<lparr>d_buf = Some buf, d_size = sz\<rparr>,
                               sec_sh := (sec_sh s)\<lparr> sh_link := of_nat (sec_index strtab),
                                                    sh_info := of_nat (sec_index shstrtab) \<rparr> \<rparr>)
                       kelf))))))"

section \<open>The emitter\<close>

text \<open>
  \<open>kpatch_write_output_elf\<close> hands three things to the object-access library, which
  writes the file: the object class it asks a fresh header for (\<open>gelf_newehdr\<close>), the
  header record it passes to \<open>gelf_update_ehdr\<close>, and header and data of every section.
  \<open>kelf\<close> is the output graph, \<open>e\<close> the handle of the patched input.
\<close>

record elf_image =
  img_class :: nat
  img_ehdr :: GElf_Ehdr
  img_scns :: "(GElf_Shdr \<times> Elf_Data) list"

definition zero_ehdr :: GElf_Ehdr where
  "zero_ehdr = \<lparr> e_ident = replicate EI_NIDENT 0, e_type = 0, e_machine = 0, e_version = 0,
      e_entry = 0, e_phoff = 0, e_shoff = 0, e_flags = 0, e_ehsize = 0, e_phentsize = 0,
      e_phnum = 0, e_shentsize = 0, e_shnum = 0, e_shstrndx = 0 \<rparr>"

definition kpatch_write_output_elf :: "gelf_r \<Rightarrow> kpatch_elf \<Rightarrow> Elf option \<Rightarrow> elf_image result" where
  "kpatch_write_output_elf g kelf e =
     (case gelf_getehdr e of
        None \<Rightarrow> Inl (ERROR ''gelf_getehdr'')
      | Some eh \<Rightarrow>
          if \<not> EI_DATA < length (e_ident eh) then Inl BAD_ACCESS
          else
            bind (deref (sections kelf) (find_section_by_name (sections kelf) ''.shstrtab''))
              (\<lambda>shstrtab.
                Inr \<lparr> img_class = gelf_getclass g (elf kelf),
                      img_ehdr = zero_ehdr\<lparr> e_ident := (e_ident zero_ehdr)[EI_DATA := e_ident eh ! EI_DATA],
                                           e_machine := e_machine eh,
                                           e_type := e_type eh,
                                           e_version := EV_CURRENT,
                                           e_shstrndx := of_nat (sec_index shstrtab) \<rparr>,
                      img_scns = map (\<lambda>sec. (sec_sh sec, sec_data sec)) (sections kelf) \<rparr>))"

section \<open>The program\<close>

text \<open>
  \<open>main\<close> after the command line is parsed, at the default log level and without the
  inventory file. An input file is given by what the object-access library returns for
  it: the handle, the section table of \<open>kpatch_create_section_table\<close>, and the three
  readers. The result is the text written to standard output, the output graph and what
  is handed to the library for writing.
\<close>

record input_file =
  in_kelf :: kpatch_elf
  in_getsym :: getsym_t
  in_getrela :: getrela_t
  in_strptr :: strptr_t

definition main ::
  "gelf_r \<Rightarrow> input_file \<Rightarrow> input_file \<Rightarrow> (string list \<times> kpatch_elf \<times> elf_image) result" where
  "main g original patched =
     bind (kpatch_elf_open g (in_getsym original) (in_getrela original) (in_strptr original)
             (in_kelf original)) (\<lambda>kelf_base.
     bind (kpatch_elf_open g (in_getsym patched) (in_getrela patched) (in_strptr patched)
             (in_kelf patched)) (\<lambda>kelf_patched.
     bind (kpatch_compare_elf_headers (elf kelf_base) (elf kelf_patched)) (\<lambda>_.
     bind (kpatch_check_program_headers (elf kelf_base)) (\<lambda>_.
     bind (kpatch_check_program_headers (elf kelf_patched)) (\<lambda>_.
     bind (kpatch_correlate_elfs (kelf_base, kelf_patched)) (\<lambda>(kb, kp).
     bind (kpatch_compare_correlated_elements kb kp) (\<lambda>kp1.
     bind (kpatch_replace_sections_syms kp1) (\<lambda>kp2.
     bind (kpatch_include_changed_functions (kp2, [])) (\<lambda>(kp3, out).
     bind (kpatch_generate_output kp3) (\<lambda>(kp4, kelf_out).
     bind (kpatch_create_rela_sections g kp4 kelf_out) (\<lambda>o1.
     bind (kpatch_create_shstrtab o1) (\<lambda>o2.
     bind (kpatch_create_strtab o2) (\<lambda>o3.
     bind (kpatch_create_symtab g o3) (\<lambda>o4.
     bind (kpatch_write_output_elf g o4 (elf kp4)) (\<lambda>img.
       Inr (out, o4, img))))))))))))))))"

section \<open>Predicates used in the statements\<close>

text \<open>A function or object symbol whose owning section exists and is not included, and
  the symbol the mutation pass of \<open>kpatch_generate_output\<close> turns it into.\<close>

definition absent_section :: "kpatch_elf \<Rightarrow> symbol \<Rightarrow> bool" where
  "absent_section kelf s \<longleftrightarrow>
     (sym_type s = STT_OBJECT \<or> sym_type s = STT_FUNC) \<and>
     (case sym_sec s of None \<Rightarrow> False
      | Some j \<Rightarrow> j < length (sections kelf) \<and> \<not> sec_include (sections kelf ! j))"

definition undefined_global :: "symbol \<Rightarrow> symbol" where
  "undefined_global s =
     s\<lparr> sym_type := STT_NOTYPE, sym_bind := STB_GLOBAL,
        sym_sym := (sym_sym s)\<lparr> st_info := GELF_ST_INFO STB_GLOBAL STT_NOTYPE,
                               st_shndx := SHN_UNDEF, st_size := 0 \<rparr> \<rparr>"

definition needs_section :: "symbol \<Rightarrow> bool" where
  "needs_section s \<longleftrightarrow> sym_type s = STT_OBJECT \<or> sym_type s = STT_FUNC"

definition valid_sym_secs :: "kpatch_elf \<Rightarrow> bool" where
  "valid_sym_secs kelf \<longleftrightarrow>
     list_all (\<lambda>s. case sym_sec s of None \<Rightarrow> True | Some j \<Rightarrow> j < length (sections kelf))
       (symbols kelf)"

definition unbound_symbols :: "kpatch_elf \<Rightarrow> nat list" where
  "unbound_symbols kelf =
     filter (\<lambda>i. i \<noteq> 0 \<and> needs_section (symbols kelf ! i) \<and> sym_sec (symbols kelf ! i) = None)
       [0 ..< length (symbols kelf)]"

definition mutated_upto :: "nat \<Rightarrow> kpatch_elf \<Rightarrow> kpatch_elf" where
  "mutated_upto j kelf =
     kelf\<lparr>symbols :=
       map (\<lambda>i. if i < j \<and> i \<noteq> 0 \<and> absent_section kelf (symbols kelf ! i)
                then undefined_global (symbols kelf ! i) else symbols kelf ! i)
         [0 ..< length (symbols kelf)]\<rparr>"

definition real_section_index :: "16 word \<Rightarrow> bool" where
  "real_section_index shndx \<longleftrightarrow> SHN_UNDEF < shndx \<and> shndx < SHN_LORESERVE"

definition bound_as_loaded :: "nat \<Rightarrow> symbol \<Rightarrow> bool" where
  "bound_as_loaded nsec s \<longleftrightarrow>
     (sym_sec s \<noteq> None) = real_section_index (st_shndx (sym_sym s)) \<and>
     (case sym_sec s of None \<Rightarrow> True | Some j \<Rightarrow> j < nsec) \<and>
     sym_type s = GELF_ST_TYPE (st_info (sym_sym s)) \<and>
     sym_bind s = GELF_ST_BIND (st_info (sym_sym s))"

definition section_bytes :: "sect \<Rightarrow> char list" where
  "section_bytes sec =
     take (d_size (sec_data sec)) (case d_buf (sec_data sec) of None \<Rightarrow> [] | Some b \<Rightarrow> b)"

definition headers_agree :: "sect \<Rightarrow> sect \<Rightarrow> bool" where
  "headers_agree sec1 sec2 \<longleftrightarrow>
     sh_type (sec_sh sec1) = sh_type (sec_sh sec2) \<and>
     sh_flags (sec_sh sec1) = sh_flags (sec_sh sec2) \<and>
     sh_addr (sec_sh sec1) = sh_addr (sec_sh sec2) \<and>
     sh_addralign (sec_sh sec1) = sh_addralign (sec_sh sec2) \<and>
     sh_entsize (sec_sh sec1) = sh_entsize (sec_sh sec2)"

definition content_differs :: "sect \<Rightarrow> sect \<Rightarrow> bool" where
  "content_differs sec1 sec2 \<longleftrightarrow>
     sh_size (sec_sh sec1) \<noteq> sh_size (sec_sh sec2) \<or>
     d_size (sec_data sec1) \<noteq> d_size (sec_data sec2) \<or>
     (sh_type (sec_sh sec1) \<noteq> SHT_NOBITS \<and> section_bytes sec1 \<noteq> section_bytes sec2)"

definition classify :: "kpatch_elf \<Rightarrow> sect \<Rightarrow> status" where
  "classify base sec =
     (case sec_twin sec of
        None \<Rightarrow> NEW
      | Some t \<Rightarrow> if content_differs sec (sections base ! t) then CHANGED else SAME)"

definition links_consistent :: "kpatch_elf \<Rightarrow> bool" where
  "links_consistent kelf \<longleftrightarrow>
     (\<forall>j < length (sections kelf).
        (case sec_sym (sections kelf ! j) of None \<Rightarrow> True
         | Some s \<Rightarrow> s < length (symbols kelf) \<and> sym_sec (symbols kelf ! s) = Some j) \<and>
        (case sec_secsym (sections kelf ! j) of None \<Rightarrow> True
         | Some s \<Rightarrow> s < length (symbols kelf) \<and> sym_sec (symbols kelf ! s) = Some j) \<and>
        (case sec_rela (sections kelf ! j) of None \<Rightarrow> True
         | Some r \<Rightarrow> r < length (sections kelf) \<and> is_rela_section (sections kelf ! r) \<and>
                     sec_base (sections kelf ! r) = Some j))"

text \<open>Everything of a graph but the status fields.\<close>

definition section_shape :: "sect \<Rightarrow> sect" where
  "section_shape sec = sec\<lparr>sec_status := NEW\<rparr>"

definition symbol_shape :: "symbol \<Rightarrow> symbol" where
  "symbol_shape s = s\<lparr>sym_status := NEW\<rparr>"

definition same_shape :: "kpatch_elf \<Rightarrow> kpatch_elf \<Rightarrow> bool" where
  "same_shape k k' \<longleftrightarrow>
     map section_shape (sections k) = map section_shape (sections k') \<and>
     map symbol_shape (symbols k) = map symbol_shape (symbols k')"

definition classified :: "kpatch_elf \<Rightarrow> kpatch_elf \<Rightarrow> kpatch_elf \<Rightarrow> nat \<Rightarrow> bool" where
  "classified base kelf k i \<longleftrightarrow>
     sec_status (sections k ! i) = classify base (sections kelf ! i) \<and>
     (\<forall>t. sec_twin (sections kelf ! i) = Some t \<longrightarrow>
          t < length (sections base) \<and> headers_agree (sections kelf ! i) (sections base ! t)) \<and>
     (\<forall>s. sec_sym (sections kelf ! i) = Some s \<or> sec_secsym (sections kelf ! i) = Some s \<longrightarrow>
          sym_status (symbols k ! s) = classify base (sections kelf ! i)) \<and>
     (\<forall>r. sec_rela (sections kelf ! i) = Some r \<longrightarrow>
          sec_status (sections k ! r) = classify base (sections kelf ! i))"

definition readable :: "sect \<Rightarrow> bool" where
  "readable sec \<longleftrightarrow>
     sh_type (sec_sh sec) = SHT_NOBITS \<or>
     (case d_buf (sec_data sec) of
        None \<Rightarrow> d_size (sec_data sec) = 0
      | Some b \<Rightarrow> d_size (sec_data sec) \<le> length b)"

definition comparable :: "kpatch_elf \<Rightarrow> kpatch_elf \<Rightarrow> bool" where
  "comparable base kelf \<longleftrightarrow>
     (\<forall>i < length (sections kelf). \<not> is_rela_section (sections kelf ! i) \<longrightarrow>
        readable (sections kelf ! i) \<and>
        (case sec_twin (sections kelf ! i) of
           None \<Rightarrow> True
         | Some t \<Rightarrow> t < length (sections base) \<and> readable (sections base ! t)))"

definition header_mismatch :: "kpatch_elf \<Rightarrow> kpatch_elf \<Rightarrow> nat \<Rightarrow> bool" where
  "header_mismatch base kelf i \<longleftrightarrow>
     \<not> is_rela_section (sections kelf ! i) \<and>
     (case sec_twin (sections kelf ! i) of
        None \<Rightarrow> False
      | Some t \<Rightarrow> \<not> headers_agree (sections kelf ! i) (sections base ! t))"

text \<open>The relocation \<open>r\<close> with its info field rewritten for the output symbol at
  position \<open>p\<close>, and the conditions under which \<open>kpatch_create_rela_section\<close> finds
  every pointer it follows.\<close>

definition retargeted :: "gelf_r \<Rightarrow> kpatch_elf \<Rightarrow> rela \<Rightarrow> nat \<Rightarrow> rela" where
  "retargeted g out r p =
     r\<lparr>rela_rela := (rela_rela r)
        \<lparr>r_info := GELF_R_INFO g (of_nat (sym_index (symbols out ! p)))
                     (ucast (GELF_R_TYPE g (r_info (rela_rela r))))\<rparr>\<rparr>"

definition rela_crosslink :: "kpatch_elf \<Rightarrow> kpatch_elf \<Rightarrow> rela \<Rightarrow> nat option" where
  "rela_crosslink src out r =
     (case rela_sym r of
        None \<Rightarrow> None
      | Some s \<Rightarrow>
          if s < length (symbols src) then
            (case sym_twino (symbols src ! s) of
               None \<Rightarrow> None
             | Some p \<Rightarrow> if p < length (symbols out) then Some p else None)
          else None)"

definition base_crosslink :: "kpatch_elf \<Rightarrow> kpatch_elf \<Rightarrow> sect \<Rightarrow> nat option" where
  "base_crosslink src out sec =
     (case sec_twino sec of
        None \<Rightarrow> None
      | Some i \<Rightarrow>
          if i < length (sections src) then
            (case sec_base (sections src ! i) of
               None \<Rightarrow> None
             | Some b \<Rightarrow>
                 if b < length (sections src) then
                   (case sec_twino (sections src ! b) of
                      None \<Rightarrow> None
                    | Some ob \<Rightarrow> if ob < length (sections out) then Some ob else None)
                 else None)
          else None)"

definition retargeted_relas :: "gelf_r \<Rightarrow> kpatch_elf \<Rightarrow> kpatch_elf \<Rightarrow> rela list \<Rightarrow> rela list" where
  "retargeted_relas g src out rs =
     map (\<lambda>r. retargeted g out r (the (rela_crosslink src out r))) rs"

section \<open>Concrete inputs\<close>

definition strings_kelf :: "string \<Rightarrow> kpatch_elf" where
  "strings_kelf lit =
     \<lparr> elf = None,
       sections = [zero_section\<lparr> sec_name := ''.rodata.str1.1'', sec_index := 1,
                     sec_sh := zero_shdr\<lparr>sh_type := 1, sh_flags := 0x32\<rparr>,
                     sec_data := \<lparr>d_buf = Some (lit @ [CHR 0x00]), d_size = length lit + 1\<rparr>,
                     sec_secsym := Some 1 \<rparr>],
       symbols = [zero_symbol,
                  zero_symbol\<lparr> sym_index := 1, sym_sec := Some 0, sym_type := STT_SECTION,
                     sym_name := Some ''.rodata.str1.1'',
                     sym_sym := zero_sym\<lparr>st_info := 3, st_shndx := 1\<rparr> \<rparr>] \<rparr>"

definition string_gr :: GElf_Rela where
  "string_gr = \<lparr> r_offset = 8, r_info = 0x10000000a, r_addend = 0 \<rparr>"

definition string_rela :: "string \<Rightarrow> rela" where
  "string_rela lit = zero_rela\<lparr> rela_rela := string_gr, rela_sym := Some 1, rela_type := 10,
     rela_offset := 8, rela_string := Some (Str lit) \<rparr>"

definition plain_kelf :: kpatch_elf where
  "plain_kelf =
     \<lparr> elf = None,
       sections = [zero_section\<lparr> sec_name := ''.text.bar'', sec_index := 1,
                     sec_sh := zero_shdr\<lparr>sh_type := 1, sh_flags := 6\<rparr>,
                     sec_data := \<lparr>d_buf = Some [CHR 0x90], d_size = 1\<rparr>,
                     sec_sym := Some 1 \<rparr>],
       symbols = [zero_symbol,
                  zero_symbol\<lparr> sym_index := 1, sym_sec := Some 0, sym_type := STT_FUNC,
                     sym_name := Some ''bar'', sym_twino := Some 1,
                     sym_sym := zero_sym\<lparr>st_info := 2, st_shndx := 1\<rparr> \<rparr>] \<rparr>"

definition wide_gr :: GElf_Rela where
  "wide_gr = \<lparr> r_offset = 0x100000004, r_info = 0x100000002, r_addend = 0x1FFFFFFFC \<rparr>"

definition narrow_gr :: GElf_Rela where
  "narrow_gr = \<lparr> r_offset = 4, r_info = 0x100000002, r_addend = - 4 \<rparr>"

definition plain_rela :: "GElf_Rela \<Rightarrow> rela" where
  "plain_rela gr = zero_rela\<lparr> rela_rela := gr, rela_sym := Some 1, rela_type := 2,
     rela_addend := - 4, rela_offset := 4 \<rparr>"

definition undef_input :: kpatch_elf where
  "undef_input =
     \<lparr> elf = None,
       sections = [zero_section\<lparr> sec_name := ''.symtab'', sec_index := 1,
                     sec_sh := zero_shdr\<lparr>sh_type := 2, sh_size := 48, sh_entsize := 24,
                                           sh_link := 2\<rparr> \<rparr>],
       symbols = [] \<rparr>"

definition undef_getsym :: getsym_t where
  "undef_getsym d i = (if i = 1 then Some (zero_sym\<lparr>st_name := 1, st_info := 0x12\<rparr>) else None)"

definition undef_strptr :: strptr_t where
  "undef_strptr lnk off = (if off = 1 then Some ''printf'' else None)"

definition undef_loaded :: kpatch_elf where
  "undef_loaded =
     undef_input\<lparr> symbols :=
       [zero_symbol,
        zero_symbol\<lparr> sym_index := 1, sym_sym := zero_sym\<lparr>st_name := 1, st_info := 0x12\<rparr>,
          sym_name := Some ''printf'', sym_type := STT_FUNC, sym_bind := STB_GLOBAL \<rparr>] \<rparr>"

definition cmp_base :: kpatch_elf where
  "cmp_base =
     \<lparr> elf = None,
       sections = [zero_section\<lparr> sec_name := ''.text.foo'', sec_index := 1,
                     sec_sh := zero_shdr\<lparr>sh_type := 1, sh_flags := 6, sh_size := 1\<rparr>,
                     sec_data := \<lparr>d_buf = Some [CHR 0x01], d_size = 1\<rparr>,
                     sec_twin := Some 0, sec_status := SAME \<rparr>],
       symbols = [] \<rparr>"

definition cmp_patched :: kpatch_elf where
  "cmp_patched =
     \<lparr> elf = None,
       sections =
         [zero_section\<lparr> sec_name := ''.text.foo'', sec_index := 1,
            sec_sh := zero_shdr\<lparr>sh_type := 1, sh_flags := 6, sh_size := 1\<rparr>,
            sec_data := \<lparr>d_buf = Some [CHR 0x02], d_size = 1\<rparr>,
            sec_twin := Some 0, sec_status := SAME, sec_sym := Some 1, sec_rela := Some 1 \<rparr>,
          zero_section\<lparr> sec_name := ''.rela.text.foo'', sec_index := 2,
            sec_sh := zero_shdr\<lparr>sh_type := SHT_RELA\<rparr>, sec_base := Some 0 \<rparr>,
          zero_section\<lparr> sec_name := ''.text.new'', sec_index := 3,
            sec_sh := zero_shdr\<lparr>sh_type := 1, sh_flags := 6, sh_size := 1\<rparr>,
            sec_data := \<lparr>d_buf = Some [CHR 0x03], d_size = 1\<rparr>,
            sec_secsym := Some 2 \<rparr>],
       symbols =
         [zero_symbol,
          zero_symbol\<lparr> sym_index := 1, sym_sec := Some 0, sym_type := STT_FUNC,
            sym_bind := STB_GLOBAL, sym_name := Some ''foo'', sym_status := SAME \<rparr>,
          zero_symbol\<lparr> sym_index := 2, sym_sec := Some 2, sym_type := STT_SECTION,
            sym_name := Some ''.text.new'' \<rparr>] \<rparr>"

definition cmp_result :: kpatch_elf where
  "cmp_result =
     upd_symbol 1 (\<lambda>s. s\<lparr>sym_status := CHANGED\<rparr>)
       (upd_section 0 (\<lambda>s. s\<lparr>sec_status := CHANGED\<rparr>)
         (upd_section 1 (\<lambda>s. s\<lparr>sec_status := CHANGED\<rparr>) cmp_patched))"

definition emit_src :: kpatch_elf where
  "emit_src =
     \<lparr> elf = None,
       sections = [zero_section\<lparr> sec_name := ''.text.bar'', sec_index := 1,
                     sec_sh := zero_shdr\<lparr>sh_type := 1, sh_flags := 6\<rparr>,
                     sec_data := \<lparr>d_buf = Some [CHR 0x90], d_size = 1\<rparr>,
                     sec_sym := Some 1, sec_rela := Some 1, sec_twino := Some 0 \<rparr>,
                   zero_section\<lparr> sec_name := ''.rela.text.bar'', sec_index := 2,
                     sec_sh := zero_shdr\<lparr>sh_type := SHT_RELA, sh_size := 24, sh_entsize := 24\<rparr>,
                     sec_base := Some 0, sec_relas := [plain_rela wide_gr],
                     sec_twino := Some 1 \<rparr>],
       symbols = [zero_symbol,
                  zero_symbol\<lparr> sym_index := 1, sym_sec := Some 0, sym_type := STT_FUNC,
                     sym_name := Some ''bar'', sym_twino := Some 1,
                     sym_sym := zero_sym\<lparr>st_info := 2, st_shndx := 1\<rparr> \<rparr>] \<rparr>"

definition emit_out :: kpatch_elf where
  "emit_out =
     \<lparr> elf = None,
       sections = [zero_section\<lparr> sec_name := ''.text.bar'', sec_index := 1,
                     sec_sh := zero_shdr\<lparr>sh_type := 1, sh_flags := 6\<rparr>,
                     sec_data := \<lparr>d_buf = Some [CHR 0x90], d_size = 1\<rparr>,
                     sec_twino := Some 0 \<rparr>,
                   zero_section\<lparr> sec_name := ''.rela.text.bar'', sec_index := 2,
                     sec_sh := zero_shdr\<lparr>sh_type := SHT_RELA, sh_size := 24, sh_entsize := 24\<rparr>,
                     sec_relas := [plain_rela wide_gr], sec_twino := Some 1 \<rparr>],
       symbols = [zero_symbol,
                  zero_symbol\<lparr> sym_index := 1, sym_type := STT_FUNC,
                     sym_name := Some ''bar'', sym_twino := Some 1,
                     sym_sym := zero_sym\<lparr>st_info := 2, st_shndx := 1\<rparr> \<rparr>] \<rparr>"

definition absent_kelf :: kpatch_elf where
  "absent_kelf =
     \<lparr> elf = None,
       sections = [zero_section\<lparr> sec_name := ''.text.bar'', sec_index := 1,
                     sec_sh := zero_shdr\<lparr>sh_type := 1, sh_flags := 6\<rparr>,
                     sec_data := \<lparr>d_buf = Some [CHR 0x90], d_size = 1\<rparr>,
                     sec_sym := Some 1 \<rparr>],
       symbols = [zero_symbol,
                  zero_symbol\<lparr> sym_index := 1, sym_sec := Some 0, sym_type := STT_FUNC,
                     sym_name := Some ''bar'', sym_include := True,
                     sym_sym := zero_sym\<lparr>st_info := 2, st_shndx := 1, st_size := 7\<rparr> \<rparr>] \<rparr>"

definition absent_bar :: symbol where
  "absent_bar =
     zero_symbol\<lparr> sym_index := 1, sym_sec := Some 0, sym_type := STT_NOTYPE,
       sym_bind := STB_GLOBAL, sym_name := Some ''bar'', sym_include := True,
       sym_sym := zero_sym\<lparr>st_info := 16, st_shndx := SHN_UNDEF, st_size := 0\<rparr> \<rparr>"

section \<open>Basic facts\<close>

lemma bind_Inr_iff: "bind m f = Inr y \<longleftrightarrow> (\<exists>x. m = Inr x \<and> f x = Inr y)"
  by (cases m) (simp_all add: bind_def)

lemma bind_Inl_iff: "bind m f = Inl e \<longleftrightarrow> m = Inl e \<or> (\<exists>x. m = Inr x \<and> f x = Inl e)"
  by (cases m) (simp_all add: bind_def)

lemma bind_Inr [simp]: "bind (Inr x) f = f x"
  by (simp add: bind_def)

lemma bind_Inl [simp]: "bind (Inl e) f = Inl e"
  by (simp add: bind_def)

lemma for_each_append:
  "for_each (xs @ ys) body s = bind (for_each xs body s) (for_each ys body)"
  by (induction xs arbitrary: s) (auto simp: bind_def split: sum.splits)

lemma for_each_entry_Suc:
  "for_each_entry (Suc n) body s = bind (for_each_entry n body s) (body n)"
  by (simp add: for_each_entry_def for_each_append bind_def split: sum.splits)

lemma for_each_entry_0 [simp]: "for_each_entry 0 body s = Inr s"
  by (simp add: for_each_entry_def)

lemma for_each_entry_rule:
  assumes "for_each_entry n body s = Inr s'"
    and "P 0 s"
    and "\<And>i t t'. i < n \<Longrightarrow> P i t \<Longrightarrow> body i t = Inr t' \<Longrightarrow> P (Suc i) t'"
  shows "P n s'"
  using assms
proof (induction n arbitrary: s')
  case 0
  then show ?case by simp
next
  case (Suc n)
  from Suc.prems(1) obtain t where t: "for_each_entry n body s = Inr t" and b: "body n t = Inr s'"
    by (auto simp: for_each_entry_Suc bind_Inr_iff)
  have "P n t"
    by (rule Suc.IH [OF t Suc.prems(2)]) (use Suc.prems(3) in auto)
  with b show ?case using Suc.prems(3) by blast
qed

lemma deref_Inr_iff: "deref t p = Inr x \<longleftrightarrow> (\<exists>i. p = Some i \<and> i < length t \<and> x = t ! i)"
  by (auto simp: deref_def split: option.splits)

lemma sections_upd_symbol [simp]: "sections (upd_symbol i f k) = sections k"
  by (simp add: upd_symbol_def)

lemma symbols_upd_section [simp]: "symbols (upd_section i f k) = symbols k"
  by (simp add: upd_section_def)

lemma elf_upd_symbol [simp]: "elf (upd_symbol i f k) = elf k"
  by (simp add: upd_symbol_def)

lemma elf_upd_section [simp]: "elf (upd_section i f k) = elf k"
  by (simp add: upd_section_def)

lemma length_symbols_upd_symbol [simp]: "length (symbols (upd_symbol i f k)) = length (symbols k)"
  by (simp add: upd_symbol_def)

lemma length_sections_upd_section [simp]: "length (sections (upd_section i f k)) = length (sections k)"
  by (simp add: upd_section_def)

lemma nth_symbols_upd_symbol:
  "j < length (symbols k) \<Longrightarrow>
   symbols (upd_symbol i f k) ! j = (if j = i then f (symbols k ! i) else symbols k ! j)"
  by (simp add: upd_symbol_def)

lemma nth_sections_upd_section:
  "j < length (sections k) \<Longrightarrow>
   sections (upd_section i f k) ! j = (if j = i then f (sections k ! i) else sections k ! j)"
  by (simp add: upd_section_def)

section \<open>The symbol mutation pass\<close>

lemma mutate_symbol_Inr:
  assumes "mutate_symbol i k = Inr k'" "i < length (symbols k)"
  shows "k' = (if i \<noteq> 0 \<and> absent_section k (symbols k ! i)
               then upd_symbol i undefined_global k else k)"
  using assms
  by (auto simp: mutate_symbol_def Let_def absent_section_def bind_Inr_iff deref_Inr_iff
        undefined_global_def upd_symbol_def split: if_splits)

lemma mutate_symbols_inv:
  assumes "mutate_symbols kelf = Inr kelf'"
  shows "sections kelf' = sections kelf \<and> length (symbols kelf') = length (symbols kelf) \<and>
         elf kelf' = elf kelf \<and>
         (\<forall>i < length (symbols kelf).
            symbols kelf' ! i =
              (if i \<noteq> 0 \<and> absent_section kelf (symbols kelf ! i)
               then undefined_global (symbols kelf ! i) else symbols kelf ! i))"
proof -
  let ?n = "length (symbols kelf)"
  let ?P = "\<lambda>j k. sections k = sections kelf \<and> length (symbols k) = ?n \<and> elf k = elf kelf \<and>
     (\<forall>i < ?n. symbols k ! i =
        (if i < j \<and> i \<noteq> 0 \<and> absent_section kelf (symbols kelf ! i)
         then undefined_global (symbols kelf ! i) else symbols kelf ! i))"
  have "?P ?n kelf'"
  proof (rule for_each_entry_rule [where P = ?P and body = mutate_symbol and s = kelf])
    show "for_each_entry ?n mutate_symbol kelf = Inr kelf'"
      using assms by (simp add: mutate_symbols_def)
    show "?P 0 kelf" by simp
  next
    fix i t t'
    assume i: "i < ?n" and P: "?P i t" and b: "mutate_symbol i t = Inr t'"
    from P i have ti: "symbols t ! i = symbols kelf ! i" by simp
    from P have st: "sections t = sections kelf" by simp
    have abs: "absent_section t = absent_section kelf"
      by (simp add: absent_section_def fun_eq_iff st cong: option.case_cong)
    from mutate_symbol_Inr [OF b] P i
    have t': "t' = (if i \<noteq> 0 \<and> absent_section kelf (symbols kelf ! i)
               then upd_symbol i undefined_global t else t)"
      by (simp add: abs ti)
    have "symbols t' ! j =
        (if j < Suc i \<and> j \<noteq> 0 \<and> absent_section kelf (symbols kelf ! j)
         then undefined_global (symbols kelf ! j) else symbols kelf ! j)"
      if j: "j < ?n" for j
    proof (cases "j = i")
      case True
      then show ?thesis using P i ti by (auto simp: t' nth_symbols_upd_symbol)
    next
      case False
      then have "symbols t' ! j = symbols t ! j"
        using P j by (simp add: t' nth_symbols_upd_symbol)
      then show ?thesis using P j False by (auto simp: less_Suc_eq)
    qed
    moreover have "sections t' = sections kelf" "length (symbols t') = ?n" "elf t' = elf kelf"
      using P by (simp_all add: t')
    ultimately show "?P (Suc i) t'" by blast
  qed
  then show ?thesis by auto
qed


section \<open>Relocation pairing and the 32-bit fields\<close>

lemma read_rela_fields:
  assumes "read_rela g kelf gr = Inr r"
  shows "rela_rela r = gr" "rela_type r = ucast (GELF_R_TYPE g (r_info gr))"
    "rela_addend r = ucast (r_addend gr)" "rela_offset r = ucast (r_offset gr)"
  using assms
  by (auto simp: read_rela_def Let_def bind_Inr_iff split: option.splits if_splits)

lemma takeWhile_cstring:
  "CHR 0x00 \<notin> set lit \<Longrightarrow> takeWhile (\<lambda>c. c \<noteq> CHR 0x00) (lit @ CHR 0x00 # rest) = lit"
  by (induction lit) auto

lemma read_string_rela:
  "CHR 0x00 \<notin> set lit \<Longrightarrow> read_rela elf64_r (strings_kelf lit) string_gr = Inr (string_rela lit)"
  by (simp add: read_rela_def elf64_r_def strings_kelf_def string_gr_def string_rela_def
      find_symbol_by_index_def zero_symbol_def zero_rela_def deref_def zero_section_def
      zero_shdr_def SHF_STRINGS_def string_at_def takeWhile_cstring Let_def)



lemma read_plain_rela:
  "read_rela elf64_r plain_kelf wide_gr = Inr (plain_rela wide_gr)"
  "read_rela elf64_r plain_kelf narrow_gr = Inr (plain_rela narrow_gr)"
  by (simp_all add: read_rela_def elf64_r_def plain_kelf_def wide_gr_def narrow_gr_def
      plain_rela_def find_symbol_by_index_def zero_symbol_def zero_rela_def deref_def
      zero_section_def zero_shdr_def SHF_STRINGS_def Let_def)

section \<open>The mutation pass and the loader's section binding\<close>

lemma find_entry_Some:
  "find_entry P xs = Some j \<Longrightarrow> j < length xs \<and> P (xs ! j) \<and> (\<forall>i<j. \<not> P (xs ! i))"
proof (induction xs arbitrary: j)
  case Nil
  then show ?case by simp
next
  case (Cons x xs)
  show ?case
  proof (cases "P x")
    case True
    with Cons.prems show ?thesis by simp
  next
    case False
    with Cons.prems obtain j' where j': "find_entry P xs = Some j'" "j = Suc j'"
      by auto
    from Cons.IH [OF j'(1)] False show ?thesis
      by (auto simp: j'(2) less_Suc_eq_0_disj)
  qed
qed

lemma find_entry_None: "find_entry P xs = None \<longleftrightarrow> (\<forall>x \<in> set xs. \<not> P x)"
  by (induction xs) auto

lemma mutate_symbol_result:
  assumes "i < length (symbols k)" "valid_sym_secs k"
  shows "mutate_symbol i k =
     (if i \<noteq> 0 \<and> needs_section (symbols k ! i) \<and> sym_sec (symbols k ! i) = None
      then Inl NULL_DEREF
      else Inr (if i \<noteq> 0 \<and> absent_section k (symbols k ! i)
                then upd_symbol i undefined_global k else k))"
proof -
  have v: "\<And>j. sym_sec (symbols k ! i) = Some j \<Longrightarrow> j < length (sections k)"
    using assms by (auto simp: valid_sym_secs_def list_all_length split: option.splits)
  show ?thesis
    by (cases "sym_sec (symbols k ! i)")
       (auto simp: mutate_symbol_def Let_def needs_section_def absent_section_def deref_def
          undefined_global_def upd_symbol_def dest: v)
qed

lemma for_each_entry_fails:
  assumes "for_each_entry i body s = Inr t" "body i t = Inl e" "i < n"
  shows "for_each_entry n body s = Inl e"
proof -
  have "for_each_entry (Suc i) body s = Inl e"
    using assms by (simp add: for_each_entry_Suc)
  moreover have "for_each_entry (Suc i + d) body s = Inl e" if "for_each_entry (Suc i) body s = Inl e" for d
    using that by (induction d) (simp_all add: for_each_entry_Suc)
  ultimately have "for_each_entry (Suc i + (n - Suc i)) body s = Inl e" by blast
  with assms(3) show ?thesis by simp
qed

lemma mutated_upto_simps [simp]:
  "sections (mutated_upto j kelf) = sections kelf"
  "length (symbols (mutated_upto j kelf)) = length (symbols kelf)"
  "elf (mutated_upto j kelf) = elf kelf"
  by (simp_all add: mutated_upto_def)

lemma nth_mutated_upto:
  "i < length (symbols kelf) \<Longrightarrow>
   symbols (mutated_upto j kelf) ! i =
     (if i < j \<and> i \<noteq> 0 \<and> absent_section kelf (symbols kelf ! i)
      then undefined_global (symbols kelf ! i) else symbols kelf ! i)"
  by (simp add: mutated_upto_def)

lemma mutated_upto_0: "mutated_upto 0 kelf = kelf"
  by (simp add: mutated_upto_def map_nth)

lemma sym_sec_undefined_global [simp]: "sym_sec (undefined_global s) = sym_sec s"
  by (simp add: undefined_global_def)

lemma valid_sym_secs_mutated_upto:
  "valid_sym_secs kelf \<Longrightarrow> valid_sym_secs (mutated_upto j kelf)"
  by (auto simp: valid_sym_secs_def list_all_length nth_mutated_upto split: option.splits)

lemma absent_section_mutated_upto [simp]:
  "absent_section (mutated_upto j kelf) = absent_section kelf"
  by (simp add: absent_section_def fun_eq_iff cong: option.case_cong)

lemma mutated_upto_Suc:
  assumes "j < length (symbols kelf)"
  shows "mutated_upto (Suc j) kelf =
     (if j \<noteq> 0 \<and> absent_section kelf (symbols kelf ! j)
      then upd_symbol j undefined_global (mutated_upto j kelf) else mutated_upto j kelf)"
proof -
  have "symbols (mutated_upto (Suc j) kelf) =
     symbols (if j \<noteq> 0 \<and> absent_section kelf (symbols kelf ! j)
      then upd_symbol j undefined_global (mutated_upto j kelf) else mutated_upto j kelf)"
    using assms
    by (intro nth_equalityI) (auto simp: nth_mutated_upto nth_symbols_upd_symbol less_Suc_eq)
  then show ?thesis
    by (cases kelf) (auto simp: mutated_upto_def upd_symbol_def)
qed

lemma mutate_symbols_prefix:
  assumes "valid_sym_secs kelf" "j \<le> length (symbols kelf)"
  shows "for_each_entry j mutate_symbol kelf =
     (if \<exists>i<j. i \<noteq> 0 \<and> needs_section (symbols kelf ! i) \<and> sym_sec (symbols kelf ! i) = None
      then Inl NULL_DEREF else Inr (mutated_upto j kelf))"
  using assms(2)
proof (induction j)
  case 0
  then show ?case by (simp add: mutated_upto_0)
next
  case (Suc j)
  then have j: "j < length (symbols kelf)" by simp
  have same: "symbols (mutated_upto j kelf) ! j = symbols kelf ! j"
    using j by (simp add: nth_mutated_upto)
  have step: "mutate_symbol j (mutated_upto j kelf) =
     (if j \<noteq> 0 \<and> needs_section (symbols kelf ! j) \<and> sym_sec (symbols kelf ! j) = None
      then Inl NULL_DEREF else Inr (mutated_upto (Suc j) kelf))"
    using j valid_sym_secs_mutated_upto [OF assms(1), of j]
    by (subst mutate_symbol_result) (simp_all add: same mutated_upto_Suc)
  show ?case
    using Suc.IH j by (auto simp: for_each_entry_Suc step less_Suc_eq)
qed

lemma mutate_symbols_result:
  assumes "valid_sym_secs kelf"
  shows "mutate_symbols kelf =
     (if unbound_symbols kelf = [] then Inr (mutated_upto (length (symbols kelf)) kelf)
      else Inl NULL_DEREF)"
  using mutate_symbols_prefix [OF assms order_refl]
  by (auto simp: mutate_symbols_def unbound_symbols_def filter_empty_conv)

lemma find_section_by_index_less:
  "find_section_by_index table i = Some j \<Longrightarrow> j < length table"
  by (auto simp: find_section_by_index_def dest: find_entry_Some)

lemma read_symbol_step:
  assumes "read_symbol getsym strptr symtab i k = Inr k'"
    and "0 < i" and "i < length (symbols k)" and "sym_sec (symbols k ! i) = None"
  shows "length (symbols k') = length (symbols k) \<and>
         length (sections k') = length (sections k) \<and>
         (\<forall>j < length (symbols k). j \<noteq> i \<longrightarrow> symbols k' ! j = symbols k ! j) \<and>
         bound_as_loaded (length (sections k)) (symbols k' ! i)"
proof -
  from assms(1,2) obtain gs nm where gs: "getsym (sec_data symtab) i = Some gs"
    and nm: "strptr (sh_link (sec_sh symtab)) (st_name gs) = Some nm"
    by (auto simp: read_symbol_def split: option.splits)
  show ?thesis
  proof (cases "real_section_index (st_shndx gs)")
    case False
    with assms gs nm have "k' = upd_symbol i (\<lambda>_. (symbols k ! i)\<lparr> sym_index := i, sym_sym := gs,
        sym_name := Some nm, sym_type := GELF_ST_TYPE (st_info gs),
        sym_bind := GELF_ST_BIND (st_info gs) \<rparr>) k"
      by (auto simp: read_symbol_def real_section_index_def Let_def)
    with assms False show ?thesis
      by (simp add: nth_symbols_upd_symbol bound_as_loaded_def)
  next
    case True
    with assms gs nm obtain j where j: "find_section_by_index (sections k) (unat (st_shndx gs)) = Some j"
      by (auto simp: read_symbol_def real_section_index_def Let_def split: option.splits)
    then have jl: "j < length (sections k)" by (rule find_section_by_index_less)
    from assms(1,2) gs nm True j assms(3) jl show ?thesis
      by (auto simp: read_symbol_def real_section_index_def Let_def nth_symbols_upd_symbol
            bound_as_loaded_def split: if_splits)
  qed
qed

lemma bound_as_loaded_valid:
  assumes "\<forall>i < length (symbols k). 0 < i \<longrightarrow> bound_as_loaded (length (sections k)) (symbols k ! i)"
    and "symbols k \<noteq> [] \<longrightarrow> sym_sec (symbols k ! 0) = None"
  shows "valid_sym_secs k"
  unfolding valid_sym_secs_def list_all_length
proof (intro allI impI)
  fix n assume n: "n < length (symbols k)"
  show "case sym_sec (symbols k ! n) of None \<Rightarrow> True | Some j \<Rightarrow> j < length (sections k)"
  proof (cases "n = 0")
    case True
    with assms(2) n show ?thesis by auto
  next
    case False
    with assms(1) n show ?thesis by (auto simp: bound_as_loaded_def)
  qed
qed

lemma kpatch_create_symbol_table_binds:
  assumes "kpatch_create_symbol_table getsym strptr k0 = Inr k1"
  shows "valid_sym_secs k1 \<and>
         (\<forall>i < length (symbols k1). 0 < i \<longrightarrow>
            bound_as_loaded (length (sections k1)) (symbols k1 ! i))"
proof -
  from assms obtain t where t: "find_section_by_name (sections k0) ''.symtab'' = Some t"
    by (auto simp: kpatch_create_symbol_table_def split: option.splits)
  define symtab where "symtab = sections k0 ! t"
  define n where "n = unat (sh_size (sec_sh symtab) div sh_entsize (sec_sh symtab))"
  define start where "start = k0\<lparr>symbols := replicate n zero_symbol\<rparr>"
  from assms t have run: "for_each_entry n (read_symbol getsym strptr symtab) start = Inr k1"
    by (auto simp: kpatch_create_symbol_table_def Let_def symtab_def n_def start_def
          split: if_splits)
  let ?m = "length (sections k0)"
  let ?P = "\<lambda>j k. length (symbols k) = n \<and> length (sections k) = ?m \<and>
     (\<forall>i < n. j \<le> i \<longrightarrow> sym_sec (symbols k ! i) = None) \<and>
     (n \<noteq> 0 \<longrightarrow> sym_sec (symbols k ! 0) = None) \<and>
     (\<forall>i < n. i < j \<longrightarrow> 0 < i \<longrightarrow> bound_as_loaded ?m (symbols k ! i))"
  have "?P n k1"
  proof (rule for_each_entry_rule [OF run, where P = ?P])
    show "?P 0 start" by (simp add: start_def zero_symbol_def)
  next
    fix i k k'
    assume i: "i < n" and P: "?P i k" and b: "read_symbol getsym strptr symtab i k = Inr k'"
    show "?P (Suc i) k'"
    proof (cases "i = 0")
      case True
      with b have "k' = k" by (simp add: read_symbol_def)
      with P True show ?thesis by (auto simp: less_Suc_eq)
    next
      case False
      from P i have "i < length (symbols k)" "sym_sec (symbols k ! i) = None" by auto
      from read_symbol_step [OF b _ this] False
      have st: "length (symbols k') = length (symbols k)" "length (sections k') = length (sections k)"
        "\<forall>j < length (symbols k). j \<noteq> i \<longrightarrow> symbols k' ! j = symbols k ! j"
        "bound_as_loaded (length (sections k)) (symbols k' ! i)"
        by auto
      show ?thesis
        using P i False st by (auto simp: less_Suc_eq)
    qed
  qed
  then have inv: "length (symbols k1) = n" "length (sections k1) = ?m"
    "n \<noteq> 0 \<longrightarrow> sym_sec (symbols k1 ! 0) = None"
    "\<forall>i < n. 0 < i \<longrightarrow> bound_as_loaded ?m (symbols k1 ! i)"
    by auto
  have "valid_sym_secs k1"
    by (rule bound_as_loaded_valid) (use inv in auto)
  with inv show ?thesis by simp
qed

lemma for_each_entry_numeral:
  "for_each_entry (numeral v) body s =
     bind (for_each_entry (pred_numeral v) body s) (body (pred_numeral v))"
  by (simp add: numeral_eq_Suc for_each_entry_Suc)

lemma replicate_numeral_Cons: "replicate (numeral v) x = x # replicate (pred_numeral v) x"
  by (simp add: numeral_eq_Suc)

lemma undef_load:
  "kpatch_create_symbol_table undef_getsym undef_strptr undef_input = Inr undef_loaded"
proof -
  show ?thesis
    by (simp add: kpatch_create_symbol_table_def undef_input_def undef_loaded_def
        find_section_by_name_def zero_section_def zero_shdr_def
        for_each_entry_numeral replicate_numeral_Cons
        for_each_entry_Suc read_symbol_def undef_getsym_def undef_strptr_def zero_sym_def
        zero_symbol_def SHN_UNDEF_def upd_symbol_def GELF_ST_TYPE_def GELF_ST_BIND_def
        STT_FUNC_def STB_GLOBAL_def Let_def)
qed

text \<open>
  C9. The mutation pass of \<open>kpatch_generate_output\<close> reads \<open>sym->sec->include\<close> for every
  function or object symbol other than symbol 0 without a null check. With every
  section pointer either null or valid, the pass dereferences a null pointer exactly
  when some such symbol has no section, and it completes exactly when every such symbol
  has one. The loader binds a symbol to a section exactly when its section-header index
  lies strictly between \<open>SHN_UNDEF\<close> and \<open>SHN_LORESERVE\<close>; so a loaded function or
  object symbol whose index is \<open>SHN_UNDEF\<close> or \<open>SHN_ABS\<close> makes the pass dereference
  null, in every graph that has kept the loaded types and section bindings.
\<close>

theorem mutation_pass_needs_bound_symbols:
  "(valid_sym_secs kelf \<longrightarrow>
      (mutate_symbols kelf = Inl NULL_DEREF) =
        (\<exists>i < length (symbols kelf). i \<noteq> 0 \<and> needs_section (symbols kelf ! i) \<and>
            sym_sec (symbols kelf ! i) = None) \<and>
      (\<exists>kelf'. mutate_symbols kelf = Inr kelf') =
        (\<forall>i < length (symbols kelf). i \<noteq> 0 \<longrightarrow> needs_section (symbols kelf ! i) \<longrightarrow>
            sym_sec (symbols kelf ! i) \<noteq> None)) \<and>
   (kpatch_create_symbol_table getsym strptr k0 = Inr k1 \<longrightarrow>
      valid_sym_secs k1 \<and>
      (\<forall>i < length (symbols k1). 0 < i \<longrightarrow>
         (sym_sec (symbols k1 ! i) \<noteq> None) =
         (SHN_UNDEF < st_shndx (sym_sym (symbols k1 ! i)) \<and>
          st_shndx (sym_sym (symbols k1 ! i)) < SHN_LORESERVE)) \<and>
      (\<forall>i < length (symbols k1). 0 < i \<longrightarrow> needs_section (symbols k1 ! i) \<longrightarrow>
         (st_shndx (sym_sym (symbols k1 ! i)) = SHN_UNDEF \<or>
          st_shndx (sym_sym (symbols k1 ! i)) = SHN_ABS) \<longrightarrow>
         (\<forall>k :: kpatch_elf. map sym_sec (symbols k) = map sym_sec (symbols k1) \<longrightarrow>
              map sym_type (symbols k) = map sym_type (symbols k1) \<longrightarrow>
              length (sections k) = length (sections k1) \<longrightarrow>
              mutate_symbols k = Inl NULL_DEREF)))"
proof (intro conjI impI)
  assume v: "valid_sym_secs kelf"
  show "(mutate_symbols kelf = Inl NULL_DEREF) =
        (\<exists>i < length (symbols kelf). i \<noteq> 0 \<and> needs_section (symbols kelf ! i) \<and>
            sym_sec (symbols kelf ! i) = None)"
    by (auto simp: mutate_symbols_result [OF v] unbound_symbols_def filter_empty_conv)
  show "(\<exists>kelf'. mutate_symbols kelf = Inr kelf') =
        (\<forall>i < length (symbols kelf). i \<noteq> 0 \<longrightarrow> needs_section (symbols kelf ! i) \<longrightarrow>
            sym_sec (symbols kelf ! i) \<noteq> None)"
    by (auto simp: mutate_symbols_result [OF v] unbound_symbols_def filter_empty_conv)
next
  assume l: "kpatch_create_symbol_table getsym strptr k0 = Inr k1"
  note b = kpatch_create_symbol_table_binds [OF l]
  from b show "valid_sym_secs k1" by simp
  show bind: "\<forall>i < length (symbols k1). 0 < i \<longrightarrow>
         (sym_sec (symbols k1 ! i) \<noteq> None) =
         (SHN_UNDEF < st_shndx (sym_sym (symbols k1 ! i)) \<and>
          st_shndx (sym_sym (symbols k1 ! i)) < SHN_LORESERVE)"
    using b by (simp add: bound_as_loaded_def real_section_index_def)
  show "\<forall>i < length (symbols k1). 0 < i \<longrightarrow> needs_section (symbols k1 ! i) \<longrightarrow>
         (st_shndx (sym_sym (symbols k1 ! i)) = SHN_UNDEF \<or>
          st_shndx (sym_sym (symbols k1 ! i)) = SHN_ABS) \<longrightarrow>
         (\<forall>k :: kpatch_elf. map sym_sec (symbols k) = map sym_sec (symbols k1) \<longrightarrow>
              map sym_type (symbols k) = map sym_type (symbols k1) \<longrightarrow>
              length (sections k) = length (sections k1) \<longrightarrow>
              mutate_symbols k = Inl NULL_DEREF)"
  proof (intro allI impI)
    fix i and k :: kpatch_elf
    assume i: "i < length (symbols k1)" "0 < i" and ns: "needs_section (symbols k1 ! i)"
      and sh: "st_shndx (sym_sym (symbols k1 ! i)) = SHN_UNDEF \<or>
          st_shndx (sym_sym (symbols k1 ! i)) = SHN_ABS"
      and same: "map sym_sec (symbols k) = map sym_sec (symbols k1)"
        "map sym_type (symbols k) = map sym_type (symbols k1)"
        "length (sections k) = length (sections k1)"
    from same(1) have len: "length (symbols k) = length (symbols k1)"
      by (metis length_map)
    have sec: "sym_sec (symbols k ! j) = sym_sec (symbols k1 ! j)" if "j < length (symbols k1)" for j
      using same(1) that len by (metis nth_map)
    have ty: "sym_type (symbols k ! j) = sym_type (symbols k1 ! j)" if "j < length (symbols k1)" for j
      using same(2) that len by (metis nth_map)
    have "\<not> (SHN_UNDEF < st_shndx (sym_sym (symbols k1 ! i)) \<and>
          st_shndx (sym_sym (symbols k1 ! i)) < SHN_LORESERVE)"
      using sh by (auto simp: SHN_UNDEF_def SHN_ABS_def SHN_LORESERVE_def)
    with bind i have "sym_sec (symbols k1 ! i) = None" by auto
    then have none: "sym_sec (symbols k ! i) = None" using sec i by simp
    have need: "needs_section (symbols k ! i)"
      using ns ty i by (simp add: needs_section_def)
    have v: "valid_sym_secs k"
      using b same(3) len sec
      by (auto simp: valid_sym_secs_def list_all_length split: option.splits)
    have "unbound_symbols k \<noteq> []"
      using i len none need by (auto simp: unbound_symbols_def filter_empty_conv)
    then show "mutate_symbols k = Inl NULL_DEREF"
      by (simp add: mutate_symbols_result [OF v])
  qed
qed

theorem mutation_pass_needs_bound_symbols_witness:
  "kpatch_create_symbol_table undef_getsym undef_strptr undef_input = Inr undef_loaded \<and>
   valid_sym_secs undef_loaded \<and>
   needs_section (symbols undef_loaded ! 1) \<and>
   st_shndx (sym_sym (symbols undef_loaded ! 1)) = SHN_UNDEF \<and>
   sym_sec (symbols undef_loaded ! 1) = None \<and>
   mutate_symbols undef_loaded = Inl NULL_DEREF \<and>
   valid_sym_secs plain_kelf \<and>
   mutate_symbols plain_kelf = Inr (upd_symbol 1 undefined_global plain_kelf)"
proof -
  note t = mutation_pass_needs_bound_symbols
    [of undef_loaded undef_getsym undef_strptr undef_input undef_loaded]
  have f: "needs_section (symbols undef_loaded ! 1)"
    "st_shndx (sym_sym (symbols undef_loaded ! 1)) = SHN_UNDEF"
    "length (symbols undef_loaded) = 2"
    by (simp_all add: undef_loaded_def needs_section_def zero_sym_def SHN_UNDEF_def)
  from t undef_load have v: "valid_sym_secs undef_loaded" by blast
  from t undef_load have "\<forall>i < length (symbols undef_loaded). 0 < i \<longrightarrow>
         (sym_sec (symbols undef_loaded ! i) \<noteq> None) =
         (SHN_UNDEF < st_shndx (sym_sym (symbols undef_loaded ! i)) \<and>
          st_shndx (sym_sym (symbols undef_loaded ! i)) < SHN_LORESERVE)"
    by blast
  from this [rule_format, of 1] f have n: "sym_sec (symbols undef_loaded ! 1) = None"
    by (simp add: SHN_UNDEF_def)
  from t v have "(mutate_symbols undef_loaded = Inl NULL_DEREF) =
        (\<exists>i < length (symbols undef_loaded). i \<noteq> 0 \<and> needs_section (symbols undef_loaded ! i) \<and>
            sym_sec (symbols undef_loaded ! i) = None)"
    by blast
  moreover have "\<exists>i < length (symbols undef_loaded). i \<noteq> 0 \<and>
      needs_section (symbols undef_loaded ! i) \<and> sym_sec (symbols undef_loaded ! i) = None"
    using f n by (intro exI [of _ 1]) simp
  ultimately have m: "mutate_symbols undef_loaded = Inl NULL_DEREF" by simp
  have v2: "valid_sym_secs plain_kelf"
    by (simp add: valid_sym_secs_def plain_kelf_def zero_symbol_def)
  have run: "mutate_symbols plain_kelf = Inr (upd_symbol 1 undefined_global plain_kelf)"
    by (simp add: mutate_symbols_def plain_kelf_def eval_nat_numeral for_each_entry_Suc
        mutate_symbol_def deref_def zero_symbol_def zero_section_def upd_symbol_def
        undefined_global_def STT_FUNC_def STT_OBJECT_def)
  from undef_load v f n m v2 run show ?thesis by simp
qed

section \<open>Graphs that differ in status fields only\<close>

lemma same_shape_refl [simp]: "same_shape k k"
  by (simp add: same_shape_def)

lemma same_shape_trans: "same_shape a b \<Longrightarrow> same_shape b c \<Longrightarrow> same_shape a c"
  by (simp add: same_shape_def)

lemma same_shape_lengths:
  "same_shape k k' \<Longrightarrow> length (sections k') = length (sections k) \<and> length (symbols k') = length (symbols k)"
  by (metis same_shape_def length_map)

lemma same_shape_section:
  assumes "same_shape k k'" "i < length (sections k)"
  shows "section_shape (sections k' ! i) = section_shape (sections k ! i)"
proof -
  have "map section_shape (sections k) ! i = map section_shape (sections k') ! i"
    using assms by (simp add: same_shape_def)
  then show ?thesis using assms same_shape_lengths [OF assms(1)] by simp
qed

lemma same_shape_symbol:
  assumes "same_shape k k'" "i < length (symbols k)"
  shows "symbol_shape (symbols k' ! i) = symbol_shape (symbols k ! i)"
proof -
  have "map symbol_shape (symbols k) ! i = map symbol_shape (symbols k') ! i"
    using assms by (simp add: same_shape_def)
  then show ?thesis using assms same_shape_lengths [OF assms(1)] by simp
qed

lemma section_shape_fields:
  assumes "section_shape a = section_shape b"
  shows "sec_twin a = sec_twin b" "sec_sh a = sec_sh b" "sec_data a = sec_data b"
    "sec_name a = sec_name b" "sec_sym a = sec_sym b" "sec_secsym a = sec_secsym b"
    "sec_rela a = sec_rela b" "sec_base a = sec_base b" "sec_relas a = sec_relas b"
    "sec_include a = sec_include b" "sec_index a = sec_index b" "sec_twino a = sec_twino b"
    "is_rela_section a = is_rela_section b"
  using assms by (cases a; cases b; simp add: section_shape_def is_rela_section_def)+

lemma symbol_shape_fields:
  assumes "symbol_shape a = symbol_shape b"
  shows "sym_sec a = sym_sec b" "sym_type a = sym_type b" "sym_sym a = sym_sym b"
    "sym_twin a = sym_twin b" "sym_name a = sym_name b" "sym_include a = sym_include b"
    "sym_bind a = sym_bind b" "sym_index a = sym_index b" "sym_twino a = sym_twino b"
  using assms by (cases a; cases b; simp add: symbol_shape_def)+

lemma map_update_same:
  assumes "\<And>x. f (g x) = f x"
  shows "map f (xs[i := g (xs ! i)]) = map f xs"
proof (rule nth_equalityI)
  show "length (map f (xs[i := g (xs ! i)])) = length (map f xs)" by simp
next
  fix j assume "j < length (map f (xs[i := g (xs ! i)]))"
  then have "j < length xs" by simp
  then show "map f (xs[i := g (xs ! i)]) ! j = map f xs ! j"
    by (cases "j = i") (simp_all add: assms)
qed

lemma same_shape_upd_section_status:
  "same_shape k (upd_section i (\<lambda>s. s\<lparr>sec_status := st\<rparr>) k)"
  by (simp add: same_shape_def upd_section_def section_shape_def map_update_same)

lemma same_shape_upd_symbol_status:
  "same_shape k (upd_symbol i (\<lambda>s. s\<lparr>sym_status := st\<rparr>) k)"
  by (simp add: same_shape_def upd_symbol_def symbol_shape_def map_update_same)

section \<open>Classification of content sections\<close>

lemma store_symbol_Inr:
  "store_symbol p f k = Inr k' \<longleftrightarrow> (\<exists>i. p = Some i \<and> i < length (symbols k) \<and> k' = upd_symbol i f k)"
  by (auto simp: store_symbol_def split: option.splits)

lemma store_section_Inr:
  "store_section p f k = Inr k' \<longleftrightarrow> (\<exists>i. p = Some i \<and> i < length (sections k) \<and> k' = upd_section i f k)"
  by (auto simp: store_section_def split: option.splits)

lemma sync_symbol_Inr:
  assumes "sync_symbol p st k = Inr k'"
  shows "same_shape k k' \<and> sections k' = sections k \<and>
     (\<forall>s. p = Some s \<longrightarrow> s < length (symbols k) \<and> sym_status (symbols k' ! s) = st) \<and>
     (\<forall>j < length (symbols k). p \<noteq> Some j \<longrightarrow> symbols k' ! j = symbols k ! j)"
  using assms
  by (auto simp: sync_symbol_def store_symbol_Inr same_shape_upd_symbol_status
        nth_symbols_upd_symbol split: if_splits)

lemma sync_section_Inr:
  assumes "sync_section p st k = Inr k'"
  shows "same_shape k k' \<and> symbols k' = symbols k \<and>
     (\<forall>r. p = Some r \<longrightarrow> r < length (sections k) \<and> sec_status (sections k' ! r) = st) \<and>
     (\<forall>j < length (sections k). p \<noteq> Some j \<longrightarrow> sections k' ! j = sections k ! j)"
  using assms
  by (auto simp: sync_section_def store_section_Inr same_shape_upd_section_status
        nth_sections_upd_section split: if_splits)

lemma memcmp_differs_Inr:
  assumes "memcmp_differs a b n = Inr d"
  shows "d \<longleftrightarrow> take n (case a of None \<Rightarrow> [] | Some x \<Rightarrow> x) \<noteq> take n (case b of None \<Rightarrow> [] | Some x \<Rightarrow> x)"
  using assms by (auto simp: memcmp_differs_def split: if_splits option.splits)

lemma compare_section_unfold:
  assumes "sec_twin (sections k ! i) = Some t" "t < length (sections base)"
  shows "kpatch_compare_correlated_nonrela_section base i k =
     (if \<not> headers_agree (sections k ! i) (sections base ! t)
      then Inl (DIFF_FATAL ''section header details differ'')
      else if sh_size (sec_sh (sections k ! i)) \<noteq> sh_size (sec_sh (sections base ! t)) \<or>
              d_size (sec_data (sections k ! i)) \<noteq> d_size (sec_data (sections base ! t))
      then Inr (upd_section i (\<lambda>s. s\<lparr>sec_status := CHANGED\<rparr>) k)
      else if sh_type (sec_sh (sections k ! i)) = SHT_NOBITS
      then Inr (upd_section i (\<lambda>s. s\<lparr>sec_status := SAME\<rparr>) k)
      else bind (memcmp_differs (d_buf (sec_data (sections k ! i)))
                   (d_buf (sec_data (sections base ! t))) (d_size (sec_data (sections k ! i))))
             (\<lambda>differs. Inr (upd_section i
                 (\<lambda>s. s\<lparr>sec_status := (if differs then CHANGED else SAME)\<rparr>) k)))"
  unfolding kpatch_compare_correlated_nonrela_section_def Let_def deref_def headers_agree_def
  using assms by simp

lemma compare_section_Inr:
  assumes "kpatch_compare_correlated_nonrela_section base i k = Inr k'"
  shows "\<exists>t. sec_twin (sections k ! i) = Some t \<and> t < length (sections base) \<and>
          headers_agree (sections k ! i) (sections base ! t) \<and>
          k' = upd_section i (\<lambda>s. s\<lparr>sec_status := classify base (sections k ! i)\<rparr>) k"
proof -
  from assms(1) obtain t where t: "sec_twin (sections k ! i) = Some t" "t < length (sections base)"
    by (auto simp: kpatch_compare_correlated_nonrela_section_def Let_def bind_Inr_iff deref_Inr_iff)
  note u = compare_section_unfold [OF t]
  let ?s1 = "sections k ! i" and ?s2 = "sections base ! t"
  from assms(1) have h: "headers_agree ?s1 ?s2"
    unfolding u by (simp split: if_splits)
  have "k' = upd_section i (\<lambda>s. s\<lparr>sec_status := classify base ?s1\<rparr>) k"
  proof (cases "sh_size (sec_sh ?s1) \<noteq> sh_size (sec_sh ?s2) \<or>
                d_size (sec_data ?s1) \<noteq> d_size (sec_data ?s2)")
    case True
    with assms(1) h show ?thesis
      unfolding u by (auto simp: classify_def t content_differs_def)
  next
    case False
    show ?thesis
    proof (cases "sh_type (sec_sh ?s1) = SHT_NOBITS")
      case True
      with assms(1) h False show ?thesis
        unfolding u by (auto simp: classify_def t content_differs_def)
    next
      case nb: False
      with assms(1) h False obtain df where
        m: "memcmp_differs (d_buf (sec_data ?s1)) (d_buf (sec_data ?s2)) (d_size (sec_data ?s1)) = Inr df"
        and k': "k' = upd_section i (\<lambda>s. s\<lparr>sec_status := (if df then CHANGED else SAME)\<rparr>) k"
        unfolding u by (auto simp: bind_Inr_iff)
      from memcmp_differs_Inr [OF m] False
      have "df \<longleftrightarrow> section_bytes ?s1 \<noteq> section_bytes ?s2"
        by (simp add: section_bytes_def)
      with False nb show ?thesis
        by (simp add: k' classify_def t content_differs_def)
    qed
  qed
  with t h show ?thesis by blast
qed

lemma compare_nonrela_body_Inr:
  assumes run: "compare_nonrela_body base i k = Inr k'"
    and i: "i < length (sections k)" and nr: "\<not> is_rela_section (sections k ! i)"
  defines "sec \<equiv> sections k ! i" and "st \<equiv> classify base (sections k ! i)"
  shows "same_shape k k'"
    and "\<And>t. sec_twin sec = Some t \<Longrightarrow> t < length (sections base) \<and> headers_agree sec (sections base ! t)"
    and "sec_status (sections k' ! i) = st"
    and "\<And>s. sec_sym sec = Some s \<or> sec_secsym sec = Some s \<Longrightarrow>
            s < length (symbols k) \<and> sym_status (symbols k' ! s) = st"
    and "\<And>r. sec_rela sec = Some r \<Longrightarrow> r < length (sections k) \<and> sec_status (sections k' ! r) = st"
    and "\<And>j. j < length (sections k) \<Longrightarrow> j \<noteq> i \<Longrightarrow> sec_rela sec \<noteq> Some j \<Longrightarrow>
            sections k' ! j = sections k ! j"
    and "\<And>s. s < length (symbols k) \<Longrightarrow> sec_sym sec \<noteq> Some s \<Longrightarrow> sec_secsym sec \<noteq> Some s \<Longrightarrow>
            symbols k' ! s = symbols k ! s"
proof -
  define k1 where "k1 = upd_section i (\<lambda>s. s\<lparr>sec_status := st\<rparr>) k"
  from run nr obtain k1' k2 k3 where
    c: "(if sec_twin (sections k ! i) \<noteq> None
          then kpatch_compare_correlated_nonrela_section base i k
          else Inr (upd_section i (\<lambda>s. s\<lparr>sec_status := NEW\<rparr>) k)) = Inr k1'"
    and s2: "sync_symbol (sec_sym (sections k1' ! i)) (sec_status (sections k1' ! i)) k1' = Inr k2"
    and s3: "sync_symbol (sec_secsym (sections k2 ! i)) (sec_status (sections k2 ! i)) k2 = Inr k3"
    and s4: "sync_section (sec_rela (sections k3 ! i)) (sec_status (sections k3 ! i)) k3 = Inr k'"
    by (auto simp: compare_nonrela_body_def bind_Inr_iff)
  have tw: "t < length (sections base) \<and> headers_agree sec (sections base ! t)"
    if "sec_twin sec = Some t" for t
    using c that compare_section_Inr [of base i k k1'] by (auto simp: sec_def)
  have k1': "k1' = k1"
  proof (cases "sec_twin (sections k ! i)")
    case None
    with c show ?thesis by (auto simp: k1_def st_def classify_def)
  next
    case (Some t)
    with c compare_section_Inr [of base i k k1'] show ?thesis
      by (auto simp: k1_def st_def)
  qed
  have k1: "sections k1 ! i = sec\<lparr>sec_status := st\<rparr>" "symbols k1 = symbols k"
    "length (sections k1) = length (sections k)"
    "\<And>j. j < length (sections k) \<Longrightarrow> j \<noteq> i \<Longrightarrow> sections k1 ! j = sections k ! j"
    using i by (simp_all add: k1_def nth_sections_upd_section sec_def)
  note a2 = sync_symbol_Inr [OF s2 [unfolded k1']]
  have k2: "sections k2 = sections k1" "length (symbols k2) = length (symbols k)"
    using a2 same_shape_lengths [of k1 k2] k1 by auto
  note a3 = sync_symbol_Inr [OF s3]
  have k3: "sections k3 = sections k1" "length (symbols k3) = length (symbols k)"
    using a3 same_shape_lengths [of k2 k3] k2 by auto
  note a4 = sync_section_Inr [OF s4]
  have k4: "symbols k' = symbols k3" using a4 by simp
  have f: "sec_sym (sections k1 ! i) = sec_sym sec" "sec_secsym (sections k1 ! i) = sec_secsym sec"
    "sec_rela (sections k1 ! i) = sec_rela sec" "sec_status (sections k1 ! i) = st"
    by (simp_all add: k1)
  show "same_shape k k'"
    using same_shape_upd_section_status [of k i st] a2 a3 a4
    by (auto simp: k1_def [symmetric] intro: same_shape_trans)
  show "\<And>t. sec_twin sec = Some t \<Longrightarrow> t < length (sections base) \<and> headers_agree sec (sections base ! t)"
    by (rule tw)
  show "sec_status (sections k' ! i) = st"
  proof (cases "sec_rela sec = Some i")
    case True
    with a4 show ?thesis by (simp add: k3 f)
  next
    case False
    with a4 i have "sections k' ! i = sections k3 ! i" by (simp add: k3 f k1(3))
    then show ?thesis by (simp add: k3 f)
  qed
  show "s < length (symbols k) \<and> sym_status (symbols k' ! s) = st"
    if "sec_sym sec = Some s \<or> sec_secsym sec = Some s" for s
  proof (cases "sec_secsym sec = Some s")
    case True
    with a3 show ?thesis by (simp add: k2 k4 f k3)
  next
    case False
    with that have ss: "sec_sym sec = Some s" by simp
    with a2 have 1: "s < length (symbols k)" "sym_status (symbols k2 ! s) = st"
      by (simp_all add: f k1)
    with a3 False have "symbols k3 ! s = symbols k2 ! s" by (simp add: k2 f)
    with 1 show ?thesis by (simp add: k4)
  qed
  show "r < length (sections k) \<and> sec_status (sections k' ! r) = st" if "sec_rela sec = Some r" for r
    using a4 that by (simp add: k3 f k1)
  show "sections k' ! j = sections k ! j"
    if "j < length (sections k)" "j \<noteq> i" "sec_rela sec \<noteq> Some j" for j
    using a4 that by (simp add: k3 f k1)
  show "symbols k' ! s = symbols k ! s"
    if "s < length (symbols k)" "sec_sym sec \<noteq> Some s" "sec_secsym sec \<noteq> Some s" for s
  proof -
    have "symbols k2 ! s = symbols k ! s" using a2 that by (simp add: f k1)
    moreover have "symbols k3 ! s = symbols k2 ! s" using a3 that by (simp add: f k2)
    ultimately show ?thesis by (simp add: k4)
  qed
qed

lemma classify_shape:
  assumes "section_shape a = section_shape b"
  shows "classify base a = classify base b"
  using section_shape_fields(1-3) [OF assms]
  by (simp add: classify_def content_differs_def section_bytes_def split: option.splits)

lemma headers_agree_shape:
  assumes "section_shape a = section_shape b"
  shows "headers_agree a c = headers_agree b c"
  using section_shape_fields(2) [OF assms]
  by (simp add: headers_agree_def)

lemma links_consistentD:
  assumes "links_consistent kelf" "j < length (sections kelf)"
  shows "sec_sym (sections kelf ! j) = Some s \<Longrightarrow>
           s < length (symbols kelf) \<and> sym_sec (symbols kelf ! s) = Some j"
    and "sec_secsym (sections kelf ! j) = Some s \<Longrightarrow>
           s < length (symbols kelf) \<and> sym_sec (symbols kelf ! s) = Some j"
    and "sec_rela (sections kelf ! j) = Some r \<Longrightarrow>
           r < length (sections kelf) \<and> is_rela_section (sections kelf ! r) \<and>
           sec_base (sections kelf ! r) = Some j"
proof -
  from assms have c: "(case sec_sym (sections kelf ! j) of None \<Rightarrow> True
         | Some s \<Rightarrow> s < length (symbols kelf) \<and> sym_sec (symbols kelf ! s) = Some j)"
     "(case sec_secsym (sections kelf ! j) of None \<Rightarrow> True
         | Some s \<Rightarrow> s < length (symbols kelf) \<and> sym_sec (symbols kelf ! s) = Some j)"
     "(case sec_rela (sections kelf ! j) of None \<Rightarrow> True
         | Some r \<Rightarrow> r < length (sections kelf) \<and> is_rela_section (sections kelf ! r) \<and>
                     sec_base (sections kelf ! r) = Some j)"
    by (simp_all add: links_consistent_def)
  show "sec_sym (sections kelf ! j) = Some s \<Longrightarrow>
           s < length (symbols kelf) \<and> sym_sec (symbols kelf ! s) = Some j"
    using c(1) by simp
  show "sec_secsym (sections kelf ! j) = Some s \<Longrightarrow>
           s < length (symbols kelf) \<and> sym_sec (symbols kelf ! s) = Some j"
    using c(2) by simp
  show "sec_rela (sections kelf ! j) = Some r \<Longrightarrow>
           r < length (sections kelf) \<and> is_rela_section (sections kelf ! r) \<and>
           sec_base (sections kelf ! r) = Some j"
    using c(3) by simp
qed

lemma compare_nonrela_sections_inv:
  assumes run: "kpatch_compare_correlated_nonrela_sections base kelf = Inr kelf'"
    and lc: "links_consistent kelf"
  shows "same_shape kelf kelf' \<and>
     (\<forall>i < length (sections kelf). \<not> is_rela_section (sections kelf ! i) \<longrightarrow>
        classified base kelf kelf' i)"
proof -
  let ?n = "length (sections kelf)"
  let ?P = "\<lambda>j k. same_shape kelf k \<and>
     (\<forall>i < ?n. i < j \<longrightarrow> \<not> is_rela_section (sections kelf ! i) \<longrightarrow> classified base kelf k i)"
  have "?P ?n kelf'"
  proof (rule for_each_entry_rule [where P = ?P and body = "compare_nonrela_body base" and s = kelf])
    show "for_each_entry ?n (compare_nonrela_body base) kelf = Inr kelf'"
      using run by (simp add: kpatch_compare_correlated_nonrela_sections_def)
    show "?P 0 kelf" by simp
  next
    fix j k k'
    assume j: "j < ?n" and P: "?P j k" and b: "compare_nonrela_body base j k = Inr k'"
    from P have sh: "same_shape kelf k" by simp
    note len = same_shape_lengths [OF sh]
    have shj: "section_shape (sections k ! j) = section_shape (sections kelf ! j)"
      using same_shape_section [OF sh j] .
    note fj = section_shape_fields [OF shj]
    show "?P (Suc j) k'"
    proof (cases "is_rela_section (sections kelf ! j)")
      case True
      then have "k' = k" using b fj by (simp add: compare_nonrela_body_def)
      with P True show ?thesis by (auto simp: less_Suc_eq)
    next
      case False
      then have nr: "\<not> is_rela_section (sections k ! j)" using fj by simp
      have jk: "j < length (sections k)" using j len by simp
      note r = compare_nonrela_body_Inr [OF b jk nr]
      have cl: "classify base (sections k ! j) = classify base (sections kelf ! j)"
        by (rule classify_shape [OF shj])
      have sh': "same_shape kelf k'" using sh r(1) by (rule same_shape_trans)
      have new: "classified base kelf k' j"
        unfolding classified_def
        using r(2) r(3) r(4) r(5) by (auto simp: fj cl headers_agree_shape [OF shj])
      have old: "classified base kelf k' i"
        if i: "i < ?n" "i < j" "\<not> is_rela_section (sections kelf ! i)" for i
      proof -
        from P i have ci: "classified base kelf k i" by simp
        have ne: "i \<noteq> j" using i by simp
        have nrl: "sec_rela (sections k ! j) \<noteq> Some i"
          using links_consistentD(3) [OF lc j, of i] i(3) by (auto simp: fj)
        have seci: "sections k' ! i = sections k ! i"
          using r(6) [of i] i(1) len ne nrl by simp
        have syms: "symbols k' ! s = symbols k ! s"
          if s: "sec_sym (sections kelf ! i) = Some s \<or> sec_secsym (sections kelf ! i) = Some s" for s
        proof -
          from s links_consistentD(1,2) [OF lc i(1), of s]
          have sl: "s < length (symbols kelf)" and ss: "sym_sec (symbols kelf ! s) = Some i"
            by auto
          have "sec_sym (sections k ! j) \<noteq> Some s"
            using links_consistentD(1) [OF lc j, of s] ss ne by (auto simp: fj)
          moreover have "sec_secsym (sections k ! j) \<noteq> Some s"
            using links_consistentD(2) [OF lc j, of s] ss ne by (auto simp: fj)
          ultimately show ?thesis using r(7) [of s] sl len by simp
        qed
        have relas: "sections k' ! r' = sections k ! r'"
          if rr: "sec_rela (sections kelf ! i) = Some r'" for r'
        proof -
          from links_consistentD(3) [OF lc i(1) rr]
          have rl: "r' < ?n" and rre: "is_rela_section (sections kelf ! r')"
            and rb: "sec_base (sections kelf ! r') = Some i" by auto
          have "r' \<noteq> j" using rre False by auto
          moreover have "sec_rela (sections k ! j) \<noteq> Some r'"
            using links_consistentD(3) [OF lc j, of r'] rb ne by (auto simp: fj)
          ultimately show ?thesis using r(6) [of r'] rl len by simp
        qed
        from ci show ?thesis
          unfolding classified_def using seci syms relas by auto
      qed
      from sh' new old show ?thesis by (auto simp: less_Suc_eq)
    qed
  qed
  then show ?thesis by simp
qed

lemma for_each_entry_cases:
  assumes "I 0 s"
    and "\<And>i t. i < n \<Longrightarrow> I i t \<Longrightarrow> (case body i t of Inr t' \<Rightarrow> I (Suc i) t' | Inl e \<Rightarrow> E e)"
  shows "case for_each_entry n body s of Inr t' \<Rightarrow> I n t' | Inl e \<Rightarrow> E e"
  using assms(2)
proof (induction n)
  case 0
  then show ?case using assms(1) by simp
next
  case (Suc n)
  have IH: "case for_each_entry n body s of Inr t' \<Rightarrow> I n t' | Inl e \<Rightarrow> E e"
    by (rule Suc.IH) (use Suc.prems in auto)
  show ?case
  proof (cases "for_each_entry n body s")
    case (Inl e)
    with IH show ?thesis by (simp add: for_each_entry_Suc)
  next
    case (Inr t)
    with IH have "I n t" by simp
    from Suc.prems [OF _ this] Inr show ?thesis by (simp add: for_each_entry_Suc)
  qed
qed

lemma sync_symbol_total:
  assumes "\<And>s. p = Some s \<Longrightarrow> s < length (symbols k)"
  shows "\<exists>k'. sync_symbol p st k = Inr k'"
  using assms by (cases p) (auto simp: sync_symbol_def store_symbol_def)

lemma sync_section_total:
  assumes "\<And>s. p = Some s \<Longrightarrow> s < length (sections k)"
  shows "\<exists>k'. sync_section p st k = Inr k'"
  using assms by (cases p) (auto simp: sync_section_def store_section_def)

lemma memcmp_differs_total:
  assumes "n = 0 \<or> (\<exists>x y. a = Some x \<and> b = Some y \<and> n \<le> length x \<and> n \<le> length y)"
  shows "\<exists>d. memcmp_differs a b n = Inr d"
  using assms by (auto simp: memcmp_differs_def)

lemma compare_section_total:
  assumes t: "sec_twin (sections k ! i) = Some t" "t < length (sections base)"
    and r: "readable (sections k ! i)" "readable (sections base ! t)"
  shows "if headers_agree (sections k ! i) (sections base ! t)
         then \<exists>k'. kpatch_compare_correlated_nonrela_section base i k = Inr k'
         else kpatch_compare_correlated_nonrela_section base i k =
                Inl (DIFF_FATAL ''section header details differ'')"
proof (cases "headers_agree (sections k ! i) (sections base ! t)")
  case False
  then show ?thesis by (simp add: compare_section_unfold [OF t])
next
  case True
  let ?s1 = "sections k ! i" and ?s2 = "sections base ! t"
  have "\<exists>d. memcmp_differs (d_buf (sec_data ?s1)) (d_buf (sec_data ?s2)) (d_size (sec_data ?s1)) = Inr d"
    if "d_size (sec_data ?s1) = d_size (sec_data ?s2)" "sh_type (sec_sh ?s1) \<noteq> SHT_NOBITS"
  proof (rule memcmp_differs_total)
    from True that have "sh_type (sec_sh ?s2) \<noteq> SHT_NOBITS" by (simp add: headers_agree_def)
    with r that show "d_size (sec_data ?s1) = 0 \<or>
        (\<exists>x y. d_buf (sec_data ?s1) = Some x \<and> d_buf (sec_data ?s2) = Some y \<and>
           d_size (sec_data ?s1) \<le> length x \<and> d_size (sec_data ?s1) \<le> length y)"
      by (auto simp: readable_def split: option.splits)
  qed
  with True show ?thesis
    by (auto simp: compare_section_unfold [OF t])
qed

lemma sync_tail_total:
  assumes "\<And>s. sec_sym (sections k1 ! j) = Some s \<Longrightarrow> s < length (symbols k1)"
    and "\<And>s. sec_secsym (sections k1 ! j) = Some s \<Longrightarrow> s < length (symbols k1)"
    and "\<And>r. sec_rela (sections k1 ! j) = Some r \<Longrightarrow> r < length (sections k1)"
  shows "\<exists>k'. bind (sync_symbol (sec_sym (sections k1 ! j)) (sec_status (sections k1 ! j)) k1) (\<lambda>k2.
          bind (sync_symbol (sec_secsym (sections k2 ! j)) (sec_status (sections k2 ! j)) k2) (\<lambda>k3.
            sync_section (sec_rela (sections k3 ! j)) (sec_status (sections k3 ! j)) k3)) = Inr k'"
proof -
  from sync_symbol_total [of "sec_sym (sections k1 ! j)" k1] assms(1)
  obtain k2 where k2: "sync_symbol (sec_sym (sections k1 ! j)) (sec_status (sections k1 ! j)) k1 = Inr k2"
    by blast
  from sync_symbol_Inr [OF k2] same_shape_lengths [of k1 k2]
  have e2: "sections k2 = sections k1" "length (symbols k2) = length (symbols k1)" by auto
  from sync_symbol_total [of "sec_secsym (sections k2 ! j)" k2] assms(2)
  obtain k3 where k3: "sync_symbol (sec_secsym (sections k2 ! j)) (sec_status (sections k2 ! j)) k2 = Inr k3"
    by (auto simp: e2)
  from sync_symbol_Inr [OF k3] have e3: "sections k3 = sections k1" by (simp add: e2)
  from sync_section_total [of "sec_rela (sections k3 ! j)" k3] assms(3)
  obtain k' where "sync_section (sec_rela (sections k3 ! j)) (sec_status (sections k3 ! j)) k3 = Inr k'"
    by (auto simp: e3)
  with k2 k3 show ?thesis by simp
qed

lemma readable_shape:
  assumes "section_shape a = section_shape b"
  shows "readable a = readable b"
  using section_shape_fields(2,3) [OF assms] by (simp add: readable_def cong: option.case_cong)

lemma compare_nonrela_body_total:
  assumes sh: "same_shape kelf k" and lc: "links_consistent kelf"
    and cmp: "comparable base kelf" and j: "j < length (sections kelf)"
  shows "if header_mismatch base kelf j
         then compare_nonrela_body base j k = Inl (DIFF_FATAL ''section header details differ'')
         else \<exists>k'. compare_nonrela_body base j k = Inr k'"
proof (cases "is_rela_section (sections kelf ! j)")
  note len = same_shape_lengths [OF sh]
  note fj = section_shape_fields [OF same_shape_section [OF sh j]]
  case True
  then show ?thesis using fj by (simp add: header_mismatch_def compare_nonrela_body_def)
next
  note len = same_shape_lengths [OF sh]
  have shj: "section_shape (sections k ! j) = section_shape (sections kelf ! j)"
    by (rule same_shape_section [OF sh j])
  note fj = section_shape_fields [OF shj]
  case False
  then have nr: "\<not> is_rela_section (sections k ! j)" using fj by simp
  have rd: "readable (sections k ! j)"
    using cmp j False by (simp add: comparable_def readable_shape [OF shj])
  have tail: "\<exists>k'. bind (sync_symbol (sec_sym (sections k1 ! j)) (sec_status (sections k1 ! j)) k1) (\<lambda>k2.
          bind (sync_symbol (sec_secsym (sections k2 ! j)) (sec_status (sections k2 ! j)) k2) (\<lambda>k3.
            sync_section (sec_rela (sections k3 ! j)) (sec_status (sections k3 ! j)) k3)) = Inr k'"
    if k1: "k1 = upd_section j (\<lambda>s. s\<lparr>sec_status := st\<rparr>) k" for k1 st
  proof (rule sync_tail_total)
    have e: "sec_sym (sections k1 ! j) = sec_sym (sections kelf ! j)"
      "sec_secsym (sections k1 ! j) = sec_secsym (sections kelf ! j)"
      "sec_rela (sections k1 ! j) = sec_rela (sections kelf ! j)"
      "length (symbols k1) = length (symbols kelf)" "length (sections k1) = length (sections kelf)"
      using j len by (simp_all add: k1 nth_sections_upd_section fj)
    show "\<And>s. sec_sym (sections k1 ! j) = Some s \<Longrightarrow> s < length (symbols k1)"
      using links_consistentD(1) [OF lc j] by (simp add: e)
    show "\<And>s. sec_secsym (sections k1 ! j) = Some s \<Longrightarrow> s < length (symbols k1)"
      using links_consistentD(2) [OF lc j] by (simp add: e)
    show "\<And>r. sec_rela (sections k1 ! j) = Some r \<Longrightarrow> r < length (sections k1)"
      using links_consistentD(3) [OF lc j] by (simp add: e)
  qed
  show ?thesis
  proof (cases "sec_twin (sections kelf ! j)")
    case None
    then have "\<not> header_mismatch base kelf j" by (simp add: header_mismatch_def)
    moreover have "\<exists>k'. compare_nonrela_body base j k = Inr k'"
      using tail [OF refl, of NEW] None nr by (simp add: compare_nonrela_body_def fj)
    ultimately show ?thesis by simp
  next
    case (Some t)
    then have t: "sec_twin (sections k ! j) = Some t" by (simp add: fj)
    from cmp j False Some have tl: "t < length (sections base)" and rt: "readable (sections base ! t)"
      by (auto simp: comparable_def)
    note ct = compare_section_total [OF t tl rd rt]
    have hm: "header_mismatch base kelf j \<longleftrightarrow> \<not> headers_agree (sections k ! j) (sections base ! t)"
      using False Some by (simp add: header_mismatch_def headers_agree_shape [OF shj])
    show ?thesis
    proof (cases "header_mismatch base kelf j")
      case True
      with ct hm show ?thesis using nr t by (simp add: compare_nonrela_body_def)
    next
      case nm: False
      with ct hm obtain k1 where k1: "kpatch_compare_correlated_nonrela_section base j k = Inr k1"
        by auto
      from compare_section_Inr [OF k1]
      have "k1 = upd_section j (\<lambda>s. s\<lparr>sec_status := classify base (sections k ! j)\<rparr>) k"
        by auto
      from tail [OF this] k1 nm show ?thesis using nr t by (simp add: compare_nonrela_body_def)
    qed
  qed
qed

lemma compare_nonrela_body_shape:
  assumes "compare_nonrela_body base j k = Inr k'" "j < length (sections k)"
  shows "same_shape k k'"
proof (cases "is_rela_section (sections k ! j)")
  case True
  with assms show ?thesis by (simp add: compare_nonrela_body_def)
next
  case False
  from compare_nonrela_body_Inr(1) [OF assms False] show ?thesis .
qed

lemma compare_nonrela_sections_total:
  assumes lc: "links_consistent kelf" and cmp: "comparable base kelf"
  shows "if \<exists>i < length (sections kelf). header_mismatch base kelf i
         then kpatch_compare_correlated_nonrela_sections base kelf =
                Inl (DIFF_FATAL ''section header details differ'')
         else \<exists>kelf'. kpatch_compare_correlated_nonrela_sections base kelf = Inr kelf'"
proof -
  let ?n = "length (sections kelf)"
  let ?I = "\<lambda>i k. same_shape kelf k \<and> (\<forall>j < i. \<not> header_mismatch base kelf j)"
  let ?E = "\<lambda>e. e = DIFF_FATAL ''section header details differ'' \<and>
     (\<exists>i < ?n. header_mismatch base kelf i)"
  have "case for_each_entry ?n (compare_nonrela_body base) kelf of
          Inr t' \<Rightarrow> ?I ?n t' | Inl e \<Rightarrow> ?E e"
  proof (rule for_each_entry_cases [where I = ?I and E = ?E])
    show "?I 0 kelf" by simp
  next
    fix i t assume i: "i < ?n" and I: "?I i t"
    from I have sh: "same_shape kelf t" by simp
    note tot = compare_nonrela_body_total [OF sh lc cmp i]
    show "case compare_nonrela_body base i t of Inr t' \<Rightarrow> ?I (Suc i) t' | Inl e \<Rightarrow> ?E e"
    proof (cases "header_mismatch base kelf i")
      case True
      with tot i show ?thesis by auto
    next
      case False
      with tot obtain t' where t': "compare_nonrela_body base i t = Inr t'" by auto
      have "same_shape t t'"
        using compare_nonrela_body_shape [OF t'] i same_shape_lengths [OF sh] by simp
      with sh have "same_shape kelf t'" by (rule same_shape_trans)
      with I False show ?thesis by (auto simp: t' less_Suc_eq)
    qed
  qed
  then show ?thesis
    by (auto simp: kpatch_compare_correlated_nonrela_sections_def split: sum.splits)
qed

lemma cmp_run:
  "kpatch_compare_correlated_nonrela_sections cmp_base cmp_patched = Inr cmp_result"
  by (simp add: kpatch_compare_correlated_nonrela_sections_def cmp_patched_def cmp_base_def
      cmp_result_def for_each_entry_Suc compare_nonrela_body_def is_rela_section_def
      SHT_RELA_def SHT_NOBITS_def zero_section_def zero_shdr_def
      kpatch_compare_correlated_nonrela_section_def deref_def memcmp_differs_def
      sync_symbol_def sync_section_def store_symbol_def store_section_def
      upd_section_def upd_symbol_def zero_symbol_def Let_def)

lemma cmp_links: "links_consistent cmp_patched"
  by (simp add: links_consistent_def cmp_patched_def zero_section_def zero_symbol_def
      less_Suc_eq is_rela_section_def SHT_RELA_def zero_shdr_def all_conj_distrib)

lemma cmp_comparable: "comparable cmp_base cmp_patched"
  by (simp add: comparable_def cmp_patched_def cmp_base_def zero_section_def readable_def
      less_Suc_eq is_rela_section_def SHT_RELA_def zero_shdr_def all_conj_distrib)

text \<open>
  C3. \<open>kpatch_compare_correlated_nonrela_sections\<close>, on a graph whose links are as the
  loader sets them (\<open>links_consistent\<close>). When the pass completes, every section that
  is not a relocation section has status \<open>NEW\<close> if it has no twin; if it has a twin,
  the two headers agree in type, flags, address, alignment and entry size, and the
  status is \<open>CHANGED\<close> exactly when the sizes differ or, for a section that is not
  no-bits, the data bytes differ, and \<open>SAME\<close> otherwise; the section's entity symbol,
  section symbol and relocation section, where present, carry the same status. When
  buffers and twin pointers are valid (\<open>comparable\<close>), the pass stops with
  \<open>DIFF_FATAL\<close> exactly when some twinned content section disagrees with its twin in
  one of the five header fields, and completes otherwise.
\<close>

theorem content_section_classification:
  "(kpatch_compare_correlated_nonrela_sections base kelf = Inr kelf' \<longrightarrow>
    links_consistent kelf \<longrightarrow> i < length (sections kelf) \<longrightarrow>
    \<not> is_rela_section (sections kelf ! i) \<longrightarrow>
      sec_status (sections kelf' ! i) =
        (case sec_twin (sections kelf ! i) of
           None \<Rightarrow> NEW
         | Some t \<Rightarrow> if content_differs (sections kelf ! i) (sections base ! t)
                     then CHANGED else SAME) \<and>
      (\<forall>t. sec_twin (sections kelf ! i) = Some t \<longrightarrow>
           headers_agree (sections kelf ! i) (sections base ! t)) \<and>
      (\<forall>s. sec_sym (sections kelf ! i) = Some s \<longrightarrow>
           sym_status (symbols kelf' ! s) = sec_status (sections kelf' ! i)) \<and>
      (\<forall>s. sec_secsym (sections kelf ! i) = Some s \<longrightarrow>
           sym_status (symbols kelf' ! s) = sec_status (sections kelf' ! i)) \<and>
      (\<forall>r. sec_rela (sections kelf ! i) = Some r \<longrightarrow>
           sec_status (sections kelf' ! r) = sec_status (sections kelf' ! i))) \<and>
   (links_consistent kelf \<longrightarrow> comparable base kelf \<longrightarrow>
      (if \<exists>j < length (sections kelf). header_mismatch base kelf j
       then kpatch_compare_correlated_nonrela_sections base kelf =
              Inl (DIFF_FATAL ''section header details differ'')
       else \<exists>k. kpatch_compare_correlated_nonrela_sections base kelf = Inr k))"
proof (intro conjI impI)
  assume run: "kpatch_compare_correlated_nonrela_sections base kelf = Inr kelf'"
    and lc: "links_consistent kelf" and i: "i < length (sections kelf)"
    and nr: "\<not> is_rela_section (sections kelf ! i)"
  from compare_nonrela_sections_inv [OF run lc] i nr
  have c: "classified base kelf kelf' i" by simp
  then have st: "sec_status (sections kelf' ! i) = classify base (sections kelf ! i)"
    by (simp add: classified_def)
  show "sec_status (sections kelf' ! i) =
        (case sec_twin (sections kelf ! i) of
           None \<Rightarrow> NEW
         | Some t \<Rightarrow> if content_differs (sections kelf ! i) (sections base ! t)
                     then CHANGED else SAME)"
    using st by (simp add: classify_def)
  show "\<forall>t. sec_twin (sections kelf ! i) = Some t \<longrightarrow>
           headers_agree (sections kelf ! i) (sections base ! t)"
    using c by (simp add: classified_def)
  show "\<forall>s. sec_sym (sections kelf ! i) = Some s \<longrightarrow>
           sym_status (symbols kelf' ! s) = sec_status (sections kelf' ! i)"
    using c by (simp add: classified_def)
  show "\<forall>s. sec_secsym (sections kelf ! i) = Some s \<longrightarrow>
           sym_status (symbols kelf' ! s) = sec_status (sections kelf' ! i)"
    using c by (simp add: classified_def)
  show "\<forall>r. sec_rela (sections kelf ! i) = Some r \<longrightarrow>
           sec_status (sections kelf' ! r) = sec_status (sections kelf' ! i)"
    using c by (simp add: classified_def)
next
  assume "links_consistent kelf" "comparable base kelf"
  then show "if \<exists>j < length (sections kelf). header_mismatch base kelf j
       then kpatch_compare_correlated_nonrela_sections base kelf =
              Inl (DIFF_FATAL ''section header details differ'')
       else \<exists>k. kpatch_compare_correlated_nonrela_sections base kelf = Inr k"
    by (rule compare_nonrela_sections_total)
qed

theorem content_section_classification_witness:
  "kpatch_compare_correlated_nonrela_sections cmp_base cmp_patched = Inr cmp_result \<and>
   links_consistent cmp_patched \<and> comparable cmp_base cmp_patched \<and>
   content_differs (sections cmp_patched ! 0) (sections cmp_base ! 0) \<and>
   sec_status (sections cmp_result ! 0) = CHANGED \<and>
   sym_status (symbols cmp_result ! 1) = CHANGED \<and>
   sec_status (sections cmp_result ! 1) = CHANGED \<and>
   sec_twin (sections cmp_patched ! 2) = None \<and>
   sec_status (sections cmp_result ! 2) = NEW \<and>
   sym_status (symbols cmp_result ! 2) = NEW"
proof -
  have f0: "0 < length (sections cmp_patched)" "\<not> is_rela_section (sections cmp_patched ! 0)"
    "sec_twin (sections cmp_patched ! 0) = Some 0" "sec_sym (sections cmp_patched ! 0) = Some 1"
    "sec_rela (sections cmp_patched ! 0) = Some 1"
    "content_differs (sections cmp_patched ! 0) (sections cmp_base ! 0)"
    by (simp_all add: cmp_patched_def cmp_base_def is_rela_section_def zero_section_def
        zero_shdr_def SHT_RELA_def content_differs_def section_bytes_def SHT_NOBITS_def)
  have f2: "2 < length (sections cmp_patched)" "\<not> is_rela_section (sections cmp_patched ! 2)"
    "sec_twin (sections cmp_patched ! 2) = None" "sec_secsym (sections cmp_patched ! 2) = Some 2"
    by (simp_all add: cmp_patched_def is_rela_section_def zero_section_def
        zero_shdr_def SHT_RELA_def)
  note t0 = content_section_classification
    [of cmp_base cmp_patched cmp_result 0, THEN conjunct1, rule_format, OF cmp_run cmp_links f0(1,2)]
  note t2 = content_section_classification
    [of cmp_base cmp_patched cmp_result 2, THEN conjunct1, rule_format, OF cmp_run cmp_links f2(1,2)]
  from t0 f0 have a: "sec_status (sections cmp_result ! 0) = CHANGED"
    "sym_status (symbols cmp_result ! 1) = CHANGED"
    "sec_status (sections cmp_result ! 1) = CHANGED"
    by simp_all
  from t2 f2 have b: "sec_status (sections cmp_result ! 2) = NEW"
    "sym_status (symbols cmp_result ! 2) = NEW"
    by simp_all
  from cmp_run cmp_links cmp_comparable f0(6) f2(3) a b show ?thesis by simp
qed

section \<open>Relocation re-targeting\<close>

lemma retarget_rela_crosslinked:
  "rela_crosslink src out r = Some p \<Longrightarrow> retarget_rela g src out r = Inr (retargeted g out r p)"
  by (auto simp: rela_crosslink_def retarget_rela_def retargeted_def deref_def Let_def
        split: option.splits if_splits)

lemma retarget_rela_Inr:
  "retarget_rela g src out r = Inr r' \<Longrightarrow>
     \<exists>p. rela_crosslink src out r = Some p \<and> r' = retargeted g out r p"
  by (auto simp: rela_crosslink_def retarget_rela_def retargeted_def deref_def Let_def
        bind_Inr_iff split: option.splits if_splits)

lemma retarget_relas_crosslinked:
  assumes "\<forall>r \<in> set rs. rela_crosslink src out r \<noteq> None"
  shows "retarget_relas g src out rs =
     Inr (map (\<lambda>r. retargeted g out r (the (rela_crosslink src out r))) rs)"
  using assms
proof (induction rs)
  case Nil
  then show ?case by simp
next
  case (Cons r rs)
  then obtain p where p: "rela_crosslink src out r = Some p" by auto
  with Cons show ?case by (simp add: retarget_rela_crosslinked [OF p])
qed

lemma retarget_relas_Inr:
  assumes "retarget_relas g src out rs = Inr rs'"
  shows "(\<forall>r \<in> set rs. rela_crosslink src out r \<noteq> None) \<and>
     rs' = map (\<lambda>r. retargeted g out r (the (rela_crosslink src out r))) rs"
  using assms
proof (induction rs arbitrary: rs')
  case Nil
  then show ?case by simp
next
  case (Cons r rs)
  from Cons.prems obtain r' rs'' where r': "retarget_rela g src out r = Inr r'"
    and rs'': "retarget_relas g src out rs = Inr rs''" and e: "rs' = r' # rs''"
    by (auto simp: bind_Inr_iff)
  from retarget_rela_Inr [OF r'] Cons.IH [OF rs''] e show ?case by auto
qed

lemma concat_chunks_nth:
  assumes "\<forall>c \<in> set cs. length c = e" "j < length cs"
  shows "take e (drop (j * e) (concat cs @ rest)) = cs ! j"
  using assms
proof (induction cs arbitrary: j)
  case Nil
  then show ?case by simp
next
  case (Cons c cs)
  show ?case
  proof (cases j)
    case 0
    with Cons.prems show ?thesis by simp
  next
    case (Suc j')
    with Cons.prems have "take e (drop (j' * e) (concat cs @ rest)) = cs ! j'"
      by (intro Cons.IH) auto
    with Cons.prems Suc show ?thesis by simp
  qed
qed

lemma pack_entries_Inr:
  assumes "pack_entries sz e recs = Inr buf"
  shows "length buf = sz \<and> length recs * e \<le> sz \<and>
         (\<forall>j < length recs. take e (drop (j * e) buf) = take e (recs ! j))"
proof -
  from assms have l: "\<forall>r \<in> set recs. e \<le> length r" and s: "length recs * e \<le> sz"
    and b: "buf = concat (map (take e) recs) @ replicate (sz - length recs * e) (CHR 0x00)"
    by (auto simp: pack_entries_def split: if_splits simp: not_less)
  have ch: "\<forall>c \<in> set (map (take e) recs). length c = e" using l by auto
  have len: "length (concat (map (take e) recs)) = length recs * e"
    using l by (induction recs) auto
  have "take e (drop (j * e) buf) = take e (recs ! j)" if "j < length recs" for j
  proof -
    have "take e (drop (j * e) (concat (map (take e) recs) @
        replicate (sz - length recs * e) (CHR 0x00))) = map (take e) recs ! j"
      by (rule concat_chunks_nth [OF ch]) (use that in simp)
    then show ?thesis using that unfolding b by simp
  qed
  with s len show ?thesis by (simp add: b)
qed

lemma pack_entries_total:
  assumes "\<forall>r \<in> set recs. e \<le> length r" "length recs * e \<le> sz"
  shows "\<exists>buf. pack_entries sz e recs = Inr buf"
  using assms by (auto simp: pack_entries_def not_less)

lemma base_crosslink_derefs:
  "(bind (deref (sections src) (sec_twino sec)) (\<lambda>insec.
    bind (deref (sections src) (sec_base insec)) (\<lambda>inbase.
    bind (deref (sections out) (sec_twino inbase)) f)) = Inr y) \<longleftrightarrow>
   (\<exists>ob. base_crosslink src out sec = Some ob \<and> f (sections out ! ob) = Inr y)"
  by (auto simp: base_crosslink_def bind_Inr_iff deref_Inr_iff split: option.splits if_splits)

lemma kpatch_create_rela_section_Inr_iff:
  "kpatch_create_rela_section g src si link out = Inr out' \<longleftrightarrow>
     (\<exists>buf ob.
        (\<forall>r \<in> set (sec_relas (sections out ! si)). rela_crosslink src out r \<noteq> None) \<and>
        pack_entries (unat (sh_size (sec_sh (sections out ! si))))
          (unat (sh_entsize (sec_sh (sections out ! si))))
          (map (\<lambda>r. bytes_of_rela g (rela_rela r))
             (retargeted_relas g src out (sec_relas (sections out ! si)))) = Inr buf \<and>
        base_crosslink src out (sections out ! si) = Some ob \<and>
        out' = upd_section si
                 (\<lambda>s. s\<lparr> sec_relas := retargeted_relas g src out (sec_relas (sections out ! si)),
                         sec_data := (sec_data s)\<lparr>d_buf := Some buf\<rparr>,
                         sec_sh := (sec_sh s)\<lparr> sh_link := of_nat link,
                                              sh_info := of_nat (sec_index (sections out ! ob)) \<rparr> \<rparr>)
                 out)"
  (is "?L \<longleftrightarrow> ?R")
proof
  assume ?L
  then obtain relas' where r: "retarget_relas g src out (sec_relas (sections out ! si)) = Inr relas'"
    by (auto simp: kpatch_create_rela_section_def Let_def bind_Inr_iff)
  note rr = retarget_relas_Inr [OF r]
  from \<open>?L\<close> show ?R
    unfolding kpatch_create_rela_section_def Let_def r bind_Inr
    using rr by (auto simp: bind_Inr_iff [of "pack_entries _ _ _"] base_crosslink_derefs
          retargeted_relas_def)
next
  assume ?R
  then obtain buf ob where
    c: "\<forall>r \<in> set (sec_relas (sections out ! si)). rela_crosslink src out r \<noteq> None"
    and p: "pack_entries (unat (sh_size (sec_sh (sections out ! si))))
          (unat (sh_entsize (sec_sh (sections out ! si))))
          (map (\<lambda>r. bytes_of_rela g (rela_rela r))
             (retargeted_relas g src out (sec_relas (sections out ! si)))) = Inr buf"
    and b: "base_crosslink src out (sections out ! si) = Some ob"
    and o: "out' = upd_section si
                 (\<lambda>s. s\<lparr> sec_relas := retargeted_relas g src out (sec_relas (sections out ! si)),
                         sec_data := (sec_data s)\<lparr>d_buf := Some buf\<rparr>,
                         sec_sh := (sec_sh s)\<lparr> sh_link := of_nat link,
                                              sh_info := of_nat (sec_index (sections out ! ob)) \<rparr> \<rparr>)
                 out"
    by blast
  have r: "retarget_relas g src out (sec_relas (sections out ! si)) =
      Inr (retargeted_relas g src out (sec_relas (sections out ! si)))"
    using retarget_relas_crosslinked [OF c] by (simp add: retargeted_relas_def)
  have d: "bind (deref (sections src) (sec_twino (sections out ! si))) (\<lambda>insec.
    bind (deref (sections src) (sec_base insec)) (\<lambda>inbase.
    bind (deref (sections out) (sec_twino inbase)) f)) = f (sections out ! ob)" for f :: "sect \<Rightarrow> kpatch_elf result"
    using b by (auto simp: base_crosslink_def deref_def split: option.splits if_splits)
  show ?L
    unfolding kpatch_create_rela_section_def Let_def r bind_Inr p d o ..
qed

section \<open>Relocation pairing: truncated fields and emitted records\<close>

lemma ucast_eq_iff_dvd_uint:
  fixes a b :: "64 word"
  shows "(ucast a :: 32 word) = ucast b \<longleftrightarrow> 2 ^ 32 dvd (uint a - uint b)"
proof -
  have "(ucast a :: 32 word) = ucast b \<longleftrightarrow>
      (word_of_int (uint a) :: 32 word) = word_of_int (uint b)"
    by (simp only: ucast_eq)
  also have "\<dots> \<longleftrightarrow> take_bit 32 (uint a) = take_bit 32 (uint b)"
    by (subst word_of_int_eq_iff) simp
  also have "\<dots> \<longleftrightarrow> 2 ^ 32 dvd (uint a - uint b)"
    unfolding take_bit_eq_mod mod_eq_dvd_iff ..
  finally show ?thesis .
qed

lemma ucast_eq_iff_dvd_sint:
  fixes a b :: "64 word"
  shows "(ucast a :: 32 word) = ucast b \<longleftrightarrow> 2 ^ 32 dvd (sint a - sint b)"
proof -
  have c: "(ucast a :: 32 word) = scast a" "(ucast b :: 32 word) = scast b"
    by (simp_all add: down_cast_same is_down)
  have "(scast a :: 32 word) = scast b \<longleftrightarrow>
      (word_of_int (sint a) :: 32 word) = word_of_int (sint b)"
    by (simp only: scast_eq)
  also have "\<dots> \<longleftrightarrow> take_bit 32 (sint a) = take_bit 32 (sint b)"
    by (subst word_of_int_eq_iff) simp
  also have "\<dots> \<longleftrightarrow> 2 ^ 32 dvd (sint a - sint b)"
    unfolding take_bit_eq_mod mod_eq_dvd_iff ..
  finally show ?thesis by (simp add: c)
qed

lemma read_rela_sym:
  assumes "read_rela g kelf gr = Inr r"
  shows "\<exists>s. rela_sym r = Some s \<and> s < length (symbols kelf)"
proof -
  from assms obtain s where s: "find_symbol_by_index (symbols kelf)
      (unat (ucast (GELF_R_SYM g (r_info gr)) :: 32 word)) = Some s"
    by (auto simp: read_rela_def Let_def split: option.splits)
  then have "s < length (symbols kelf)"
    by (auto simp: find_symbol_by_index_def dest: find_entry_Some)
  moreover from assms s have "rela_sym r = Some s"
    by (auto simp: read_rela_def Let_def bind_Inr_iff split: option.splits if_splits)
  ultimately show ?thesis by blast
qed

lemma rela_equal_no_string:
  assumes "rela_string rela1 = None"
    and "rela_sym rela1 = Some s1" "s1 < length syms1" "sym_name (syms1 ! s1) = Some n1"
    and "rela_sym rela2 = Some s2" "s2 < length syms2" "sym_name (syms2 ! s2) = Some n2"
  shows "rela_equal syms1 syms2 rela1 rela2 =
     Inr (rela_type rela1 = rela_type rela2 \<and> rela_offset rela1 = rela_offset rela2 \<and>
          n1 = n2 \<and> rela_addend rela1 = rela_addend rela2)"
  using assms by (auto simp: rela_equal_def deref_def streq_def)

lemma rela_equal_string:
  assumes "rela_string rela1 = Some (Str a)" "rela_string rela2 \<noteq> Some Wild"
  shows "rela_equal syms1 syms2 rela1 rela2 =
     Inr (rela_type rela1 = rela_type rela2 \<and> rela_offset rela1 = rela_offset rela2 \<and>
          rela_string rela2 = Some (Str a))"
proof (cases "rela_string rela2")
  case None
  with assms show ?thesis by (simp add: rela_equal_def)
next
  case (Some c)
  with assms obtain b where "c = Str b" by (cases c) auto
  with Some assms show ?thesis by (auto simp: rela_equal_def)
qed

lemma emitted_relas:
  assumes run: "kpatch_create_rela_section g src si link out = Inr out'"
    and si: "si < length (sections out)" and j: "j < length (sec_relas (sections out ! si))"
  shows "length (sec_relas (sections out' ! si)) = length (sec_relas (sections out ! si)) \<and>
     r_offset (rela_rela (sec_relas (sections out' ! si) ! j)) =
       r_offset (rela_rela (sec_relas (sections out ! si) ! j)) \<and>
     r_addend (rela_rela (sec_relas (sections out' ! si) ! j)) =
       r_addend (rela_rela (sec_relas (sections out ! si) ! j)) \<and>
     (\<exists>buf. d_buf (sec_data (sections out' ! si)) = Some buf \<and>
        length buf = unat (sh_size (sec_sh (sections out ! si))) \<and>
        take (unat (sh_entsize (sec_sh (sections out ! si))))
          (drop (j * unat (sh_entsize (sec_sh (sections out ! si)))) buf) =
        take (unat (sh_entsize (sec_sh (sections out ! si))))
          (bytes_of_rela g (rela_rela (sec_relas (sections out' ! si) ! j))))"
proof -
  let ?rs = "sec_relas (sections out ! si)"
  let ?rs' = "retargeted_relas g src out ?rs"
  from run [unfolded kpatch_create_rela_section_Inr_iff] obtain buf ob where
    p: "pack_entries (unat (sh_size (sec_sh (sections out ! si))))
          (unat (sh_entsize (sec_sh (sections out ! si))))
          (map (\<lambda>r. bytes_of_rela g (rela_rela r)) ?rs') = Inr buf"
    and o: "out' = upd_section si
                 (\<lambda>s. s\<lparr> sec_relas := ?rs',
                         sec_data := (sec_data s)\<lparr>d_buf := Some buf\<rparr>,
                         sec_sh := (sec_sh s)\<lparr> sh_link := of_nat link,
                                              sh_info := of_nat (sec_index (sections out ! ob)) \<rparr> \<rparr>)
                 out"
    by blast
  have s': "sec_relas (sections out' ! si) = ?rs'" "d_buf (sec_data (sections out' ! si)) = Some buf"
    using si by (simp_all add: o nth_sections_upd_section)
  have l: "length ?rs' = length ?rs" by (simp add: retargeted_relas_def)
  have f: "r_offset (rela_rela (?rs' ! j)) = r_offset (rela_rela (?rs ! j))"
    "r_addend (rela_rela (?rs' ! j)) = r_addend (rela_rela (?rs ! j))"
    using j by (simp_all add: retargeted_relas_def retargeted_def)
  from pack_entries_Inr [OF p] j l
  have "length buf = unat (sh_size (sec_sh (sections out ! si)))"
    "take (unat (sh_entsize (sec_sh (sections out ! si))))
          (drop (j * unat (sh_entsize (sec_sh (sections out ! si)))) buf) =
        take (unat (sh_entsize (sec_sh (sections out ! si))))
          (bytes_of_rela g (rela_rela (?rs' ! j)))"
    by simp_all
  with l f show ?thesis by (simp add: s')
qed

lemma emit_total:
  assumes "\<forall>r \<in> set (sec_relas (sections out ! si)). rela_crosslink src out r \<noteq> None"
    and "base_crosslink src out (sections out ! si) \<noteq> None"
    and "\<forall>r. unat (sh_entsize (sec_sh (sections out ! si))) \<le> length (bytes_of_rela g r)"
    and "length (sec_relas (sections out ! si)) * unat (sh_entsize (sec_sh (sections out ! si)))
           \<le> unat (sh_size (sec_sh (sections out ! si)))"
  shows "\<exists>out'. kpatch_create_rela_section g src si link out = Inr out'"
proof -
  have "\<exists>buf. pack_entries (unat (sh_size (sec_sh (sections out ! si))))
          (unat (sh_entsize (sec_sh (sections out ! si))))
          (map (\<lambda>r. bytes_of_rela g (rela_rela r))
             (retargeted_relas g src out (sec_relas (sections out ! si)))) = Inr buf"
    by (rule pack_entries_total) (use assms(3,4) in \<open>auto simp: retargeted_relas_def\<close>)
  with assms(1,2) show ?thesis
    unfolding kpatch_create_rela_section_Inr_iff by auto
qed


lemma le_bytes_numeral:
  "le_bytes (numeral k) v = char_of (v mod 256) # le_bytes (pred_numeral k) (v div 256)"
  by (simp add: numeral_eq_Suc)

lemma length_le_bytes [simp]: "length (le_bytes n v) = n"
  by (induction n arbitrary: v) simp_all

lemma emit_sec:
  "sections emit_out ! 1 = zero_section\<lparr> sec_name := ''.rela.text.bar'', sec_index := 2,
                     sec_sh := zero_shdr\<lparr>sh_type := SHT_RELA, sh_size := 24, sh_entsize := 24\<rparr>,
                     sec_relas := [plain_rela wide_gr], sec_twino := Some 1 \<rparr>"
  "length (sections emit_out) = 2"
  by (simp_all add: emit_out_def)

lemma emit_crosslinks:
  "rela_crosslink emit_src emit_out (plain_rela wide_gr) = Some 1"
  "base_crosslink emit_src emit_out (sections emit_out ! 1) = Some 0"
  by (simp_all add: rela_crosslink_def base_crosslink_def emit_src_def emit_out_def
      plain_rela_def zero_rela_def zero_symbol_def zero_section_def)

lemma emit_retargeted:
  "retargeted elf64_r emit_out (plain_rela wide_gr) 1 =
     plain_rela \<lparr>r_offset = 0x100000004, r_info = 0x100000002, r_addend = 0x1FFFFFFFC\<rparr>"
  by (simp add: retargeted_def emit_out_def plain_rela_def zero_rela_def zero_symbol_def
      elf64_r_def wide_gr_def)

lemma bytes_of_rela_elf64:
  "bytes_of_rela elf64_r r =
     le_bytes 8 (uint (r_offset r)) @ le_bytes 8 (uint (r_info r)) @ le_bytes 8 (uint (r_addend r))"
  by (simp add: elf64_r_def)

lemma le_bytes_examples:
  "le_bytes 8 4294967300 =
     [CHR 0x04, CHR 0x00, CHR 0x00, CHR 0x00, CHR 0x01, CHR 0x00, CHR 0x00, CHR 0x00]"
  "le_bytes 8 4294967298 =
     [CHR 0x02, CHR 0x00, CHR 0x00, CHR 0x00, CHR 0x01, CHR 0x00, CHR 0x00, CHR 0x00]"
  "le_bytes 8 8589934588 =
     [CHR 0xFC, CHR 0xFF, CHR 0xFF, CHR 0xFF, CHR 0x01, CHR 0x00, CHR 0x00, CHR 0x00]"
  by (simp_all add: le_bytes_numeral char_of_def)

lemma emit_bytes:
  "bytes_of_rela elf64_r \<lparr>r_offset = 0x100000004, r_info = 0x100000002, r_addend = 0x1FFFFFFFC\<rparr> =
     [CHR 0x04, CHR 0x00, CHR 0x00, CHR 0x00, CHR 0x01, CHR 0x00, CHR 0x00, CHR 0x00,
      CHR 0x02, CHR 0x00, CHR 0x00, CHR 0x00, CHR 0x01, CHR 0x00, CHR 0x00, CHR 0x00,
      CHR 0xFC, CHR 0xFF, CHR 0xFF, CHR 0xFF, CHR 0x01, CHR 0x00, CHR 0x00, CHR 0x00]"
  unfolding bytes_of_rela_elf64 by (simp add: le_bytes_examples)

lemma emit_run:
  "kpatch_create_rela_section elf64_r emit_src 1 3 emit_out =
     Inr (upd_section 1
       (\<lambda>s. s\<lparr> sec_relas := [plain_rela \<lparr>r_offset = 0x100000004, r_info = 0x100000002,
                                       r_addend = 0x1FFFFFFFC\<rparr>],
               sec_data := (sec_data s)\<lparr>d_buf := Some
                 [CHR 0x04, CHR 0x00, CHR 0x00, CHR 0x00, CHR 0x01, CHR 0x00, CHR 0x00, CHR 0x00,
                  CHR 0x02, CHR 0x00, CHR 0x00, CHR 0x00, CHR 0x01, CHR 0x00, CHR 0x00, CHR 0x00,
                  CHR 0xFC, CHR 0xFF, CHR 0xFF, CHR 0xFF, CHR 0x01, CHR 0x00, CHR 0x00, CHR 0x00]\<rparr>,
               sec_sh := (sec_sh s)\<lparr> sh_link := 3, sh_info := 1 \<rparr> \<rparr>)
       emit_out)"
proof -
  have rs: "sec_relas (sections emit_out ! 1) = [plain_rela wide_gr]"
    and sz: "unat (sh_size (sec_sh (sections emit_out ! 1))) = 24"
      "unat (sh_entsize (sec_sh (sections emit_out ! 1))) = 24"
    by (simp_all add: emit_out_def zero_section_def zero_shdr_def)
  have rt: "retargeted_relas elf64_r emit_src emit_out [plain_rela wide_gr] =
      [plain_rela \<lparr>r_offset = 0x100000004, r_info = 0x100000002, r_addend = 0x1FFFFFFFC\<rparr>]"
    using emit_retargeted by (simp add: retargeted_relas_def emit_crosslinks)
  have rr: "rela_rela (plain_rela x) = x" for x by (simp add: plain_rela_def)
  have pk: "pack_entries 24 24
      [bytes_of_rela elf64_r \<lparr>r_offset = 0x100000004, r_info = 0x100000002, r_addend = 0x1FFFFFFFC\<rparr>] =
      Inr [CHR 0x04, CHR 0x00, CHR 0x00, CHR 0x00, CHR 0x01, CHR 0x00, CHR 0x00, CHR 0x00,
                  CHR 0x02, CHR 0x00, CHR 0x00, CHR 0x00, CHR 0x01, CHR 0x00, CHR 0x00, CHR 0x00,
                  CHR 0xFC, CHR 0xFF, CHR 0xFF, CHR 0xFF, CHR 0x01, CHR 0x00, CHR 0x00, CHR 0x00]"
    unfolding emit_bytes by (simp add: pack_entries_def)
  have ix: "sec_index (sections emit_out ! 0) = 1" by (simp add: emit_out_def)
  show ?thesis
    unfolding kpatch_create_rela_section_Inr_iff rs sz rt
    by (simp add: emit_crosslinks [unfolded One_nat_def] rr pk ix)
qed


section \<open>The mutation pass within the output synthesis\<close>

lemma undefined_global_info:
  "GELF_ST_BIND (st_info (sym_sym (undefined_global s))) = sym_bind (undefined_global s)"
  "GELF_ST_TYPE (st_info (sym_sym (undefined_global s))) = sym_type (undefined_global s)"
  by (simp_all add: undefined_global_def GELF_ST_BIND_def GELF_ST_TYPE_def GELF_ST_INFO_def
      STB_GLOBAL_def STT_NOTYPE_def)

lemma kpatch_generate_output_Inr:
  assumes "kpatch_generate_output kelf0 = Inr (kelf3, out3)"
  shows "\<exists>n kelf1 out1 kelf2 s1 s2 s3 m.
     for_each_entry (length (sections kelf0)) copy_section
       (0, include_standard_sections kelf0,
        \<lparr> elf = None,
          sections = replicate
            (length (filter sec_include (sections (include_standard_sections kelf0))))
            zero_section,
          symbols = replicate (count_symbols (symbols kelf0)) zero_symbol \<rparr>) =
       Inr (n, kelf1, out1) \<and>
     mutate_symbols kelf1 = Inr kelf2 \<and>
     kpatch_copy_symbols (Some is_file_sym) (1, kelf2, out1) = Inr s1 \<and>
     kpatch_copy_symbols (Some is_local_func_sym) s1 = Inr s2 \<and>
     kpatch_copy_symbols (Some is_local_sym) s2 = Inr s3 \<and>
     kpatch_copy_symbols None s3 = Inr (m, kelf3, out3)"
  using assms
  by (auto simp: kpatch_generate_output_def Let_def bind_Inr_iff include_standard_sections_def
      split: prod.splits)

text \<open>
  C6. The pass over the symbol table in \<open>kpatch_generate_output\<close> that precedes the
  symbol copies: on a graph in which every \<open>sym->sec\<close> is null or valid and every
  function or object symbol other than symbol 0 has a section, the pass completes, and
  it rewrites every function or object symbol (other than symbol 0) whose owning
  section is not included: type \<open>NOTYPE\<close>, bind \<open>GLOBAL\<close>, the info byte recomputed
  from these two, section index \<open>UNDEF\<close>, size 0. Every other symbol, every other
  field and the section table are left as they were. In every run of
  \<open>kpatch_generate_output\<close> that returns, the four symbol copies start from the graph
  this pass returned.
\<close>

theorem symbol_mutation_for_absent_sections:
  assumes "valid_sym_secs kelf" and "unbound_symbols kelf = []"
  shows "\<exists>kelf'. mutate_symbols kelf = Inr kelf' \<and>
    sections kelf' = sections kelf \<and> elf kelf' = elf kelf \<and>
    length (symbols kelf') = length (symbols kelf) \<and>
    (\<forall>i < length (symbols kelf).
       (if i \<noteq> 0 \<and> absent_section kelf (symbols kelf ! i)
        then symbols kelf' ! i =
            (symbols kelf ! i)\<lparr> sym_type := STT_NOTYPE, sym_bind := STB_GLOBAL,
              sym_sym := (sym_sym (symbols kelf ! i))
                \<lparr> st_info := GELF_ST_INFO STB_GLOBAL STT_NOTYPE,
                  st_shndx := SHN_UNDEF, st_size := 0 \<rparr> \<rparr> \<and>
          GELF_ST_BIND (st_info (sym_sym (symbols kelf' ! i))) = sym_bind (symbols kelf' ! i) \<and>
          GELF_ST_TYPE (st_info (sym_sym (symbols kelf' ! i))) = sym_type (symbols kelf' ! i)
        else symbols kelf' ! i = symbols kelf ! i)) \<and>
    (\<forall>kelf0 kelf3 out3. kpatch_generate_output kelf0 = Inr (kelf3, out3) \<longrightarrow>
       (\<exists>n kelf1 out1 kelf2 s1 s2 s3 m.
          for_each_entry (length (sections kelf0)) copy_section
            (0, include_standard_sections kelf0,
             \<lparr> elf = None,
               sections = replicate
                 (length (filter sec_include (sections (include_standard_sections kelf0))))
                 zero_section,
               symbols = replicate (count_symbols (symbols kelf0)) zero_symbol \<rparr>) =
            Inr (n, kelf1, out1) \<and>
          mutate_symbols kelf1 = Inr kelf2 \<and>
          kpatch_copy_symbols (Some is_file_sym) (1, kelf2, out1) = Inr s1 \<and>
          kpatch_copy_symbols (Some is_local_func_sym) s1 = Inr s2 \<and>
          kpatch_copy_symbols (Some is_local_sym) s2 = Inr s3 \<and>
          kpatch_copy_symbols None s3 = Inr (m, kelf3, out3)))"
proof -
  let ?k = "mutated_upto (length (symbols kelf)) kelf"
  have run: "mutate_symbols kelf = Inr ?k"
    using mutate_symbols_result [OF assms(1)] assms(2) by simp
  have "symbols ?k ! i =
      (if i \<noteq> 0 \<and> absent_section kelf (symbols kelf ! i)
       then undefined_global (symbols kelf ! i) else symbols kelf ! i)"
    if "i < length (symbols kelf)" for i
    using that by (simp add: nth_mutated_upto)
  then have each: "\<forall>i < length (symbols kelf).
       (if i \<noteq> 0 \<and> absent_section kelf (symbols kelf ! i)
        then symbols ?k ! i =
            (symbols kelf ! i)\<lparr> sym_type := STT_NOTYPE, sym_bind := STB_GLOBAL,
              sym_sym := (sym_sym (symbols kelf ! i))
                \<lparr> st_info := GELF_ST_INFO STB_GLOBAL STT_NOTYPE,
                  st_shndx := SHN_UNDEF, st_size := 0 \<rparr> \<rparr> \<and>
          GELF_ST_BIND (st_info (sym_sym (symbols ?k ! i))) = sym_bind (symbols ?k ! i) \<and>
          GELF_ST_TYPE (st_info (sym_sym (symbols ?k ! i))) = sym_type (symbols ?k ! i)
        else symbols ?k ! i = symbols kelf ! i)"
    using undefined_global_info by (auto simp: undefined_global_def)
  have frame: "sections ?k = sections kelf" "elf ?k = elf kelf"
    "length (symbols ?k) = length (symbols kelf)"
    by (simp_all add: mutated_upto_def)
  from run each frame kpatch_generate_output_Inr show ?thesis by blast
qed

lemma absent_valid:
  "valid_sym_secs absent_kelf" "unbound_symbols absent_kelf = []"
  "absent_section absent_kelf (symbols absent_kelf ! 1)"
  by (simp_all add: valid_sym_secs_def unbound_symbols_def absent_section_def absent_kelf_def
      zero_symbol_def zero_section_def needs_section_def STT_FUNC_def STT_OBJECT_def
      upt_conv_Cons)

lemma absent_tables:
  "symbols absent_kelf = [zero_symbol,
                  zero_symbol\<lparr> sym_index := 1, sym_sec := Some 0, sym_type := STT_FUNC,
                     sym_name := Some ''bar'', sym_include := True,
                     sym_sym := zero_sym\<lparr>st_info := 2, st_shndx := 1, st_size := 7\<rparr> \<rparr>]"
  "length (sections absent_kelf) = 1" "sec_include (sections absent_kelf ! 0) = False"
  "sec_name (sections absent_kelf ! 0) = ''.text.bar''"
  "sec_twino (sections absent_kelf ! 0) = None"
  by (simp_all add: absent_kelf_def zero_section_def)

lemma absent_std: "include_standard_sections absent_kelf = absent_kelf"
  by (simp add: include_standard_sections_def absent_kelf_def zero_section_def)

lemma absent_counts:
  "length (filter sec_include (sections absent_kelf)) = 0"
  "count_symbols (symbols absent_kelf) = 2"
  by (simp_all add: absent_kelf_def zero_section_def count_symbols_def upt_conv_Cons
      zero_symbol_def)

lemma absent_sections_loop:
  "for_each_entry (length (sections absent_kelf)) copy_section (0, absent_kelf, out) =
     Inr (0, absent_kelf, out)"
  by (simp add: absent_tables for_each_entry_Suc copy_section_def)

lemma absent_mutated:
  "mutate_symbols absent_kelf = Inr (absent_kelf\<lparr>symbols := [zero_symbol, absent_bar]\<rparr>)"
  by (simp add: mutate_symbols_def absent_kelf_def for_each_entry_Suc eval_nat_numeral
      mutate_symbol_def deref_def upd_symbol_def absent_bar_def zero_symbol_def zero_section_def
      zero_sym_def STT_FUNC_def STT_OBJECT_def STT_NOTYPE_def STB_GLOBAL_def
      SHN_UNDEF_def GELF_ST_INFO_def)

lemma absent_skipped:
  "kpatch_copy_symbols (Some is_file_sym)
     (Suc 0, absent_kelf\<lparr>symbols := [zero_symbol, absent_bar]\<rparr>, out) =
     Inr (Suc 0, absent_kelf\<lparr>symbols := [zero_symbol, absent_bar]\<rparr>, out)"
  "kpatch_copy_symbols (Some is_local_func_sym)
     (Suc 0, absent_kelf\<lparr>symbols := [zero_symbol, absent_bar]\<rparr>, out) =
     Inr (Suc 0, absent_kelf\<lparr>symbols := [zero_symbol, absent_bar]\<rparr>, out)"
  "kpatch_copy_symbols (Some is_local_sym)
     (Suc 0, absent_kelf\<lparr>symbols := [zero_symbol, absent_bar]\<rparr>, out) =
     Inr (Suc 0, absent_kelf\<lparr>symbols := [zero_symbol, absent_bar]\<rparr>, out)"
  by (simp_all add: kpatch_copy_symbols_def for_each_entry_Suc copy_symbol_def
      absent_bar_def is_file_sym_def is_local_func_sym_def is_local_sym_def zero_symbol_def
      STT_FILE_def STT_NOTYPE_def STB_GLOBAL_def STB_LOCAL_def Let_def)

lemma absent_copied:
  "kpatch_copy_symbols None
     (Suc 0, absent_kelf\<lparr>symbols := [zero_symbol, absent_bar]\<rparr>,
      \<lparr> elf = None, sections = [], symbols = [zero_symbol, zero_symbol] \<rparr>) =
     Inr (2, absent_kelf\<lparr>symbols :=
               [zero_symbol, absent_bar\<lparr>sym_twino := Some 1, sym_include := False\<rparr>]\<rparr>,
          \<lparr> elf = None, sections = [],
            symbols = [zero_symbol, absent_bar\<lparr>sym_twino := Some 1\<rparr>] \<rparr>)"
  by (simp add: kpatch_copy_symbols_def for_each_entry_Suc copy_symbol_def
      absent_bar_def zero_symbol_def upd_symbol_def deref_def absent_kelf_def zero_section_def
      Let_def)

lemma absent_output:
  "kpatch_generate_output absent_kelf =
     Inr (absent_kelf\<lparr>symbols :=
            [zero_symbol, absent_bar\<lparr>sym_twino := Some 1, sym_include := False\<rparr>]\<rparr>,
          \<lparr> elf = None, sections = [],
            symbols = [zero_symbol, absent_bar\<lparr>sym_twino := Some 1\<rparr>] \<rparr>)"
  unfolding kpatch_generate_output_def absent_std Let_def absent_counts absent_sections_loop
  by (simp add: absent_mutated absent_skipped absent_copied numeral_2_eq_2)

theorem symbol_mutation_for_absent_sections_witness:
  "valid_sym_secs absent_kelf \<and> unbound_symbols absent_kelf = [] \<and>
   sym_type (symbols absent_kelf ! 1) = STT_FUNC \<and>
   absent_section absent_kelf (symbols absent_kelf ! 1) \<and>
   mutate_symbols absent_kelf = Inr (absent_kelf\<lparr>symbols := [zero_symbol, absent_bar]\<rparr>) \<and>
   sym_type absent_bar = STT_NOTYPE \<and> sym_bind absent_bar = STB_GLOBAL \<and>
   st_info (sym_sym absent_bar) = 16 \<and> st_shndx (sym_sym absent_bar) = SHN_UNDEF \<and>
   st_size (sym_sym absent_bar) = 0 \<and>
   kpatch_generate_output absent_kelf =
     Inr (absent_kelf\<lparr>symbols :=
            [zero_symbol, absent_bar\<lparr>sym_twino := Some 1, sym_include := False\<rparr>]\<rparr>,
          \<lparr> elf = None, sections = [],
            symbols = [zero_symbol, absent_bar\<lparr>sym_twino := Some 1\<rparr>] \<rparr>) \<and>
   kpatch_copy_symbols None
     (1, absent_kelf\<lparr>symbols := [zero_symbol, absent_bar]\<rparr>,
      \<lparr> elf = None, sections = [], symbols = [zero_symbol, zero_symbol] \<rparr>) =
     Inr (2, absent_kelf\<lparr>symbols :=
               [zero_symbol, absent_bar\<lparr>sym_twino := Some 1, sym_include := False\<rparr>]\<rparr>,
          \<lparr> elf = None, sections = [],
            symbols = [zero_symbol, absent_bar\<lparr>sym_twino := Some 1\<rparr>] \<rparr>)"
proof -
  from symbol_mutation_for_absent_sections [OF absent_valid(1,2)] obtain kelf' where
    run: "mutate_symbols absent_kelf = Inr kelf'"
    and frame: "sections kelf' = sections absent_kelf" "elf kelf' = elf absent_kelf"
      "length (symbols kelf') = length (symbols absent_kelf)"
    and each: "\<forall>i < length (symbols absent_kelf).
       (if i \<noteq> 0 \<and> absent_section absent_kelf (symbols absent_kelf ! i)
        then symbols kelf' ! i =
            (symbols absent_kelf ! i)\<lparr> sym_type := STT_NOTYPE, sym_bind := STB_GLOBAL,
              sym_sym := (sym_sym (symbols absent_kelf ! i))
                \<lparr> st_info := GELF_ST_INFO STB_GLOBAL STT_NOTYPE,
                  st_shndx := SHN_UNDEF, st_size := 0 \<rparr> \<rparr> \<and>
          GELF_ST_BIND (st_info (sym_sym (symbols kelf' ! i))) = sym_bind (symbols kelf' ! i) \<and>
          GELF_ST_TYPE (st_info (sym_sym (symbols kelf' ! i))) = sym_type (symbols kelf' ! i)
        else symbols kelf' ! i = symbols absent_kelf ! i)"
    and gen: "\<forall>kelf0 kelf3 out3. kpatch_generate_output kelf0 = Inr (kelf3, out3) \<longrightarrow>
       (\<exists>n kelf1 out1 kelf2 s1 s2 s3 m.
          for_each_entry (length (sections kelf0)) copy_section
            (0, include_standard_sections kelf0,
             \<lparr> elf = None,
               sections = replicate
                 (length (filter sec_include (sections (include_standard_sections kelf0))))
                 zero_section,
               symbols = replicate (count_symbols (symbols kelf0)) zero_symbol \<rparr>) =
            Inr (n, kelf1, out1) \<and>
          mutate_symbols kelf1 = Inr kelf2 \<and>
          kpatch_copy_symbols (Some is_file_sym) (1, kelf2, out1) = Inr s1 \<and>
          kpatch_copy_symbols (Some is_local_func_sym) s1 = Inr s2 \<and>
          kpatch_copy_symbols (Some is_local_sym) s2 = Inr s3 \<and>
          kpatch_copy_symbols None s3 = Inr (m, kelf3, out3))"
    by blast
  have len: "length (symbols absent_kelf) = 2" by (simp add: absent_tables)
  from each [rule_format, of 0] have s0: "symbols kelf' ! 0 = zero_symbol"
    by (simp add: absent_tables)
  from each [rule_format, of 1] absent_valid(3)
  have s1: "symbols kelf' ! 1 = absent_bar"
    by (simp add: absent_tables absent_bar_def GELF_ST_INFO_def STB_GLOBAL_def STT_NOTYPE_def
        zero_symbol_def zero_sym_def)
  from frame(3) len s0 s1 have "symbols kelf' = [zero_symbol, absent_bar]"
    by (cases "symbols kelf'" rule: list.exhaust; simp)
      (metis One_nat_def Suc_length_conv length_0_conv nth_Cons_0 nth_Cons_Suc numeral_2_eq_2)
  with frame have "kelf' = absent_kelf\<lparr>symbols := [zero_symbol, absent_bar]\<rparr>"
    by simp
  with run have mut: "mutate_symbols absent_kelf =
      Inr (absent_kelf\<lparr>symbols := [zero_symbol, absent_bar]\<rparr>)"
    by simp
  have ty: "sym_type (symbols absent_kelf ! 1) = STT_FUNC"
    by (simp add: absent_tables)
  have bar: "sym_type absent_bar = STT_NOTYPE" "sym_bind absent_bar = STB_GLOBAL"
    "st_info (sym_sym absent_bar) = 16" "st_shndx (sym_sym absent_bar) = SHN_UNDEF"
    "st_size (sym_sym absent_bar) = 0"
    by (simp_all add: absent_bar_def)
  from gen [rule_format, OF absent_output] obtain n kelf1 out1 kelf2 s1 s2 s3 m where
    g: "for_each_entry (length (sections absent_kelf)) copy_section
            (0, include_standard_sections absent_kelf,
             \<lparr> elf = None,
               sections = replicate
                 (length (filter sec_include (sections (include_standard_sections absent_kelf))))
                 zero_section,
               symbols = replicate (count_symbols (symbols absent_kelf)) zero_symbol \<rparr>) =
            Inr (n, kelf1, out1)"
      "mutate_symbols kelf1 = Inr kelf2"
      "kpatch_copy_symbols (Some is_file_sym) (1, kelf2, out1) = Inr s1"
      "kpatch_copy_symbols (Some is_local_func_sym) s1 = Inr s2"
      "kpatch_copy_symbols (Some is_local_sym) s2 = Inr s3"
      "kpatch_copy_symbols None s3 = Inr (m, absent_kelf\<lparr>symbols :=
            [zero_symbol, absent_bar\<lparr>sym_twino := Some 1, sym_include := False\<rparr>]\<rparr>,
          \<lparr> elf = None, sections = [],
            symbols = [zero_symbol, absent_bar\<lparr>sym_twino := Some 1\<rparr>] \<rparr>)"
    by blast
  from g(1) have k1: "kelf1 = absent_kelf"
    "out1 = \<lparr> elf = None, sections = [], symbols = [zero_symbol, zero_symbol] \<rparr>"
    by (simp_all add: absent_std absent_counts absent_sections_loop numeral_2_eq_2)
  from g(2) mut k1 have k2: "kelf2 = absent_kelf\<lparr>symbols := [zero_symbol, absent_bar]\<rparr>"
    by simp
  from g(3) have "s1 = (1, kelf2, out1)" by (simp add: k2 absent_skipped)
  with g(4) have "s2 = (1, kelf2, out1)" by (simp add: k2 absent_skipped)
  with g(5) have "s3 = (1, kelf2, out1)" by (simp add: k2 absent_skipped)
  with g(6) absent_copied have copy: "kpatch_copy_symbols None
     (1, absent_kelf\<lparr>symbols := [zero_symbol, absent_bar]\<rparr>,
      \<lparr> elf = None, sections = [], symbols = [zero_symbol, zero_symbol] \<rparr>) =
     Inr (2, absent_kelf\<lparr>symbols :=
               [zero_symbol, absent_bar\<lparr>sym_twino := Some 1, sym_include := False\<rparr>]\<rparr>,
          \<lparr> elf = None, sections = [],
            symbols = [zero_symbol, absent_bar\<lparr>sym_twino := Some 1\<rparr>] \<rparr>)"
    by (simp add: k1 k2)
  from absent_valid ty mut bar absent_output copy show ?thesis by blast
qed

end
